theory Spec2Isabelle
  imports Main "HOL-Library.DAList" "HOL-Library.Multiset"
begin

section \<open>Strings\<close>

text \<open>
  A Python \<open>str\<close> is a sequence of Unicode code points; it is modelled as a list of
  natural numbers, one per code point (so \<open>len\<close> is \<open>length\<close>). String constants
  of the source are written as code-point lists, with the text in a comment.
\<close>

type_synonym ustr = "nat list"

text \<open>
  \<open>str.lower()\<close>, on the two alphabets the indexed language is written in: Basic Latin
  \<open>A-Z\<close> and Cyrillic \<open>U+0400-U+042F\<close>. Every other code point is left as it is.
  No theorem about the cache below uses any property of this function.
\<close>

definition lower_cp :: "nat \<Rightarrow> nat" where
  "lower_cp c =
     (if 65 \<le> c \<and> c \<le> 90 then c + 32
      else if 1040 \<le> c \<and> c \<le> 1071 then c + 32
      else if 1024 \<le> c \<and> c \<le> 1039 then c + 80
      else c)"

definition str_lower :: "ustr \<Rightarrow> ustr" where
  "str_lower s = map lower_cp s"

section \<open>Parser data (bsl\_parser.py)\<close>

record BSLParam =
  p_name :: ustr
  p_byval :: bool
  p_default :: "ustr option"

record BSLCallPosition =
  cp_call :: ustr
  cp_line :: nat
  cp_character :: nat

record BSLModuleVar =
  v_name :: ustr
  v_is_export :: bool
  v_description :: ustr

record BSLMethod =
  m_name :: ustr
  m_line :: nat
  m_endline :: nat
  m_isproc :: bool
  m_is_export :: bool
  m_params :: "BSLParam list"
  m_description :: ustr
  m_context :: ustr
  m_calls_position :: "BSLCallPosition list"

section \<open>The symbol cache (bsl\_cache.py)\<close>

record BSLCallInfo =
  ci_filename :: ustr
  ci_call :: ustr
  ci_line :: nat
  ci_character :: nat
  ci_method_name :: ustr
  ci_module :: ustr

record BSLModuleInfo =
  mo_filename :: ustr
  mo_module :: ustr
  mo_type :: ustr
  mo_parenttype :: ustr
  mo_project :: ustr

record BSLMethodInfo =
  mi_method :: BSLMethod
  mi_filename :: ustr
  mi_module :: ustr

text \<open>
  A Python \<open>dict\<close> keeps its keys distinct and in insertion order: it is an association
  list with distinct keys (\<open>DAList\<close>). \<open>DAList.update\<close> overwrites a present key in
  place and appends an absent one, as assignment \<open>d[k] = v\<close> does; \<open>DAList.delete\<close>
  is \<open>d.pop(k, None)\<close>.
\<close>

record BSLCache =
  methods :: "BSLMethodInfo list"
  module_vars :: "(ustr, BSLModuleVar list) alist"
  calls :: "(ustr, BSLCallInfo list) alist"
  modules :: "BSLModuleInfo list"
  method_name_index :: "(ustr, nat list) alist"
  method_module_index :: "(ustr, nat list) alist"
  method_export_index :: "nat list"

text \<open>\<open>BSLCache.__init__\<close>.\<close>

definition BSLCache_init :: BSLCache where
  "BSLCache_init =
     \<lparr>methods = [], module_vars = DAList.empty, calls = DAList.empty, modules = [],
      method_name_index = DAList.empty, method_module_index = DAList.empty,
      method_export_index = []\<rparr>"

text \<open>
  The idiom \<^verbatim>\<open>if k not in d: d[k] = []\<close> followed by \<^verbatim>\<open>d[k].append(v)\<close>,
  which every insertion of the cache uses.
\<close>

definition setdefault_append :: "'k \<Rightarrow> 'v \<Rightarrow> ('k, 'v list) alist \<Rightarrow> ('k, 'v list) alist" where
  "setdefault_append k v d =
     (let d1 = (if DAList.lookup d k = None then DAList.update k [] d else d)
      in DAList.update k ((case DAList.lookup d1 k of Some l \<Rightarrow> l | None \<Rightarrow> []) @ [v]) d1)"

definition add_method :: "BSLCache \<Rightarrow> BSLMethod \<Rightarrow> ustr \<Rightarrow> ustr \<Rightarrow> BSLCache" where
  "add_method c method filename module =
     (let method_info = \<lparr>mi_method = method, mi_filename = filename, mi_module = module\<rparr>;
          index = length (methods c);
          c1 = c\<lparr>methods := methods c @ [method_info]\<rparr>;
          method_name_lower = str_lower (m_name method);
          c2 = c1\<lparr>method_name_index :=
                    setdefault_append method_name_lower index (method_name_index c1)\<rparr>;
          c3 = (if module \<noteq> []
                then c2\<lparr>method_module_index :=
                          setdefault_append (str_lower module) index (method_module_index c2)\<rparr>
                else c2)
      in if m_is_export method
         then c3\<lparr>method_export_index := method_export_index c3 @ [index]\<rparr>
         else c3)"

definition add_module_var :: "BSLCache \<Rightarrow> BSLModuleVar \<Rightarrow> ustr \<Rightarrow> BSLCache" where
  "add_module_var c var filename =
     c\<lparr>module_vars := setdefault_append filename var (module_vars c)\<rparr>"

definition add_call :: "BSLCache \<Rightarrow> BSLCallPosition \<Rightarrow> ustr \<Rightarrow> ustr \<Rightarrow> ustr \<Rightarrow> BSLCache" where
  "add_call c call filename method_name module =
     (let call_name = cp_call call;
          call_info = \<lparr>ci_filename = filename, ci_call = call_name, ci_line = cp_line call,
                       ci_character = cp_character call, ci_method_name = method_name,
                       ci_module = module\<rparr>
      in c\<lparr>calls := setdefault_append call_name call_info (calls c)\<rparr>)"

text \<open>The batch variants: a \<open>for\<close> loop over the list, calling the single operation.\<close>

fun add_methods_batch :: "BSLCache \<Rightarrow> (BSLMethod \<times> ustr \<times> ustr) list \<Rightarrow> BSLCache" where
  "add_methods_batch c [] = c"
| "add_methods_batch c ((method, filename, module) # methods_data) =
     add_methods_batch (add_method c method filename module) methods_data"

fun add_module_vars_batch :: "BSLCache \<Rightarrow> (BSLModuleVar \<times> ustr) list \<Rightarrow> BSLCache" where
  "add_module_vars_batch c [] = c"
| "add_module_vars_batch c ((var, filename) # vars_data) =
     add_module_vars_batch (add_module_var c var filename) vars_data"

fun add_calls_batch ::
  "BSLCache \<Rightarrow> (BSLCallPosition \<times> ustr \<times> ustr \<times> ustr) list \<Rightarrow> BSLCache" where
  "add_calls_batch c [] = c"
| "add_calls_batch c ((call, filename, method_name, module) # calls_data) =
     add_calls_batch (add_call c call filename method_name module) calls_data"

definition add_module :: "BSLCache \<Rightarrow> BSLModuleInfo \<Rightarrow> BSLCache" where
  "add_module c module_info = c\<lparr>modules := modules c @ [module_info]\<rparr>"

definition clear :: "BSLCache \<Rightarrow> BSLCache" where
  "clear c =
     c\<lparr>methods := [], module_vars := DAList.empty, calls := DAList.empty, modules := [],
       method_name_index := DAList.empty, method_module_index := DAList.empty,
       method_export_index := []\<rparr>"

subsection \<open>Queries\<close>

text \<open>
  The values a query dictionary holds: a string, a boolean, \<open>None\<close>, or a dictionary
  with the key \<open>$regex\<close> (carrying the pattern text).
\<close>

datatype qvalue = QStr ustr | QBool bool | QNone | QRegex ustr

type_synonym query = "(ustr, qvalue) alist"

text \<open>
  \<open>str(v)\<close> and the truth value of \<open>v\<close>. \<open>find_methods\<close> applies \<open>str\<close> only
  to a value that is not a regex dictionary (such a dictionary takes the other branch), so
  the last equation of \<open>py_str\<close> is never used.
\<close>

fun py_str :: "qvalue \<Rightarrow> ustr" where
  "py_str (QStr s) = s"
| "py_str (QBool True) = [84, 114, 117, 101]"
| "py_str (QBool False) = [70, 97, 108, 115, 101]"
| "py_str QNone = [78, 111, 110, 101]"
| "py_str (QRegex p) = p"

fun truthy :: "qvalue \<Rightarrow> bool" where
  "truthy (QStr s) = (s \<noteq> [])"
| "truthy (QBool b) = b"
| "truthy QNone = False"
| "truthy (QRegex p) = True"

text \<open>The query keys \<open>find_methods\<close> reads.\<close>

definition k_name :: ustr where "k_name = [110, 97, 109, 101]"
definition k_module :: ustr where "k_module = [109, 111, 100, 117, 108, 101]"
definition k_is_export :: ustr where "k_is_export = [105, 115, 95, 101, 120, 112, 111, 114, 116]"
definition k_isExport :: ustr where "k_isExport = [105, 115, 69, 120, 112, 111, 114, 116]"
definition k_context :: ustr where "k_context = [99, 111, 110, 116, 101, 120, 116]"
definition k_isproc :: ustr where "k_isproc = [105, 115, 112, 114, 111, 99]"

text \<open>
  Python's \<open>set[int]\<close> of candidate positions is a list without duplicates. The order
  in which Python iterates over a set is not specified, so a result of \<open>find_methods\<close>
  under a non-empty query is meaningful only up to its order.
\<close>

type_synonym int_set = "nat list"

definition set_inter :: "int_set \<Rightarrow> int_set \<Rightarrow> int_set" where
  "set_inter a b = filter (\<lambda>i. i \<in> set b) a"

definition set_diff :: "int_set \<Rightarrow> int_set \<Rightarrow> int_set" where
  "set_diff a b = filter (\<lambda>i. i \<notin> set b) a"

text \<open>\<^verbatim>\<open>candidate = s if candidate is None else candidate & s\<close>\<close>

definition narrow :: "int_set option \<Rightarrow> int_set \<Rightarrow> int_set option" where
  "narrow candidate s = (case candidate of None \<Rightarrow> Some s | Some cs \<Rightarrow> Some (set_inter cs s))"

text \<open>
  Python's regular-expression engine is not part of the repository: \<open>re.compile(p,
  re.IGNORECASE)\<close> is the parameter \<open>re_compile\<close>, which gives \<open>None\<close> where
  \<open>re.compile\<close> raises \<open>re.error\<close> and otherwise the predicate \<open>pattern.search\<close>.
  The indices of every key of an index whose text the pattern finds are collected.
\<close>

datatype error = ReError | IndexError

definition regex_indices :: "(ustr \<Rightarrow> bool) \<Rightarrow> (ustr, nat list) alist \<Rightarrow> int_set" where
  "regex_indices search idx =
     remdups (concat (map snd (filter (\<lambda>(k, indices). search k) (DAList.impl_of idx))))"

definition index_filter ::
  "(ustr \<Rightarrow> (ustr \<Rightarrow> bool) option) \<Rightarrow> (ustr, nat list) alist \<Rightarrow> qvalue \<Rightarrow> error + int_set" where
  "index_filter re_compile idx pat =
     (case pat of
        QRegex p \<Rightarrow>
          (case re_compile p of
             None \<Rightarrow> Inl ReError
           | Some search \<Rightarrow> Inr (regex_indices search idx))
      | _ \<Rightarrow>
          Inr (remdups (case DAList.lookup idx (str_lower (py_str pat)) of
                          None \<Rightarrow> [] | Some l \<Rightarrow> l)))"

definition export_filter :: "BSLCache \<Rightarrow> query \<Rightarrow> int_set option \<Rightarrow> int_set option" where
  "export_filter c q candidate =
     (if DAList.lookup q k_is_export \<noteq> None \<or> DAList.lookup q k_isExport \<noteq> None
      then
        (let is_export = (case DAList.lookup q k_is_export of
                            Some v \<Rightarrow> truthy v
                          | None \<Rightarrow> (case DAList.lookup q k_isExport of
                                       Some v \<Rightarrow> truthy v | None \<Rightarrow> False));
             export_indices = remdups (method_export_index c)
         in case candidate of
              Some cs \<Rightarrow>
                if is_export then Some (set_inter cs export_indices)
                else Some (set_diff cs export_indices)
            | None \<Rightarrow>
                if is_export then Some export_indices
                else Some (set_diff [0..<length (methods c)] export_indices))
      else candidate)"

text \<open>
  The final loop over the candidates, with the two filters that read the method itself:
  \<open>method.context != query['context']\<close> and \<open>method.isproc != query['isproc']\<close>.
\<close>

definition context_differs :: "ustr \<Rightarrow> qvalue \<Rightarrow> bool" where
  "context_differs ctx v = (case v of QStr s \<Rightarrow> ctx \<noteq> s | _ \<Rightarrow> True)"

definition isproc_differs :: "bool \<Rightarrow> qvalue \<Rightarrow> bool" where
  "isproc_differs b v = (case v of QBool b' \<Rightarrow> b \<noteq> b' | _ \<Rightarrow> True)"

definition keep_entry :: "query \<Rightarrow> BSLMethodInfo \<Rightarrow> bool" where
  "keep_entry q method_info =
     (let method = mi_method method_info
      in (case DAList.lookup q k_context of
            Some v \<Rightarrow> \<not> context_differs (m_context method) v | None \<Rightarrow> True)
       \<and> (case DAList.lookup q k_isproc of
            Some v \<Rightarrow> \<not> isproc_differs (m_isproc method) v | None \<Rightarrow> True))"

definition scan_candidates :: "BSLCache \<Rightarrow> query \<Rightarrow> int_set \<Rightarrow> BSLMethodInfo list" where
  "scan_candidates c q candidate_indices =
     filter (keep_entry q)
       (map (\<lambda>idx. methods c ! idx)
          (filter (\<lambda>idx. idx < length (methods c)) candidate_indices))"

definition find_methods ::
  "(ustr \<Rightarrow> (ustr \<Rightarrow> bool) option) \<Rightarrow> BSLCache \<Rightarrow> query option \<Rightarrow>
   error + BSLMethodInfo list" where
  "find_methods re_compile c query =
     (case query of
        None \<Rightarrow> Inr (methods c)
      | Some q \<Rightarrow>
          if DAList.impl_of q = [] then Inr (methods c)
          else
            (case (case DAList.lookup q k_name of
                     None \<Rightarrow> Inr None
                   | Some pat \<Rightarrow>
                       map_sum id (narrow None)
                         (index_filter re_compile (method_name_index c) pat)) of
               Inl e \<Rightarrow> Inl e
             | Inr cand1 \<Rightarrow>
                 (case (case DAList.lookup q k_module of
                          None \<Rightarrow> Inr cand1
                        | Some pat \<Rightarrow>
                            map_sum id (narrow cand1)
                              (index_filter re_compile (method_module_index c) pat)) of
                    Inl e \<Rightarrow> Inl e
                  | Inr cand2 \<Rightarrow>
                      (let cand3 = export_filter c q cand2;
                           candidate_indices =
                             (case cand3 of
                                None \<Rightarrow> [0..<length (methods c)] | Some cs \<Rightarrow> cs)
                       in Inr (scan_candidates c q candidate_indices)))))"

definition find_calls :: "BSLCache \<Rightarrow> ustr \<Rightarrow> BSLCallInfo list" where
  "find_calls c call_name =
     (case DAList.lookup (calls c) call_name of None \<Rightarrow> [] | Some l \<Rightarrow> l)"

subsection \<open>Removal of one file\<close>

text \<open>
  \<open>_rebuild_indices\<close>: the three indexes are cleared and one pass over
  \<open>enumerate(self.methods)\<close> fills them again.
\<close>

definition rebuild_step :: "BSLCache \<Rightarrow> nat \<times> BSLMethodInfo \<Rightarrow> BSLCache" where
  "rebuild_step c p =
     (let idx = fst p; method_info = snd p; method = mi_method method_info;
          c1 = c\<lparr>method_name_index :=
                   setdefault_append (str_lower (m_name method)) idx (method_name_index c)\<rparr>;
          c2 = (if mi_module method_info \<noteq> []
                then c1\<lparr>method_module_index :=
                          setdefault_append (str_lower (mi_module method_info)) idx
                            (method_module_index c1)\<rparr>
                else c1)
      in if m_is_export method
         then c2\<lparr>method_export_index := method_export_index c2 @ [idx]\<rparr>
         else c2)"

definition rebuild_indices :: "BSLCache \<Rightarrow> BSLCache" where
  "rebuild_indices c =
     foldl rebuild_step
       (c\<lparr>method_name_index := DAList.empty, method_module_index := DAList.empty,
          method_export_index := []\<rparr>)
       (enumerate 0 (methods c))"

text \<open>
  Step 1 of \<open>remove_file_data\<close>: the positions of the file's entries are collected from
  the end of the list to its start, and each is popped in that order.
\<close>

definition indices_to_remove :: "BSLMethodInfo list \<Rightarrow> ustr \<Rightarrow> nat list" where
  "indices_to_remove ms filename =
     filter (\<lambda>idx. mi_filename (ms ! idx) = filename) (rev [0..<length ms])"

text \<open>
  \<open>self.methods.pop(idx)\<close> raises \<open>IndexError\<close> when \<open>idx\<close> is not a position of
  the list; the loop \<^verbatim>\<open>for idx in indices_to_remove: self.methods.pop(idx)\<close>
  stops at the first such error.
\<close>

fun pop_all :: "'a list \<Rightarrow> nat list \<Rightarrow> error + 'a list" where
  "pop_all xs [] = Inr xs"
| "pop_all xs (idx # rest) =
     (if idx < length xs then pop_all (take idx xs @ drop (Suc idx) xs) rest
      else Inl IndexError)"

text \<open>
  Step 3: the loop over \<open>self.calls.items()\<close>. A bucket that keeps a record is
  assigned its filtered list (the key stays where it is); a bucket that keeps none is
  noted and popped after the loop.
\<close>

fun filter_calls ::
  "ustr \<Rightarrow> (ustr \<times> BSLCallInfo list) list \<Rightarrow> (ustr, BSLCallInfo list) alist \<Rightarrow> ustr list \<Rightarrow>
   (ustr, BSLCallInfo list) alist \<times> ustr list" where
  "filter_calls filename [] d calls_to_remove = (d, calls_to_remove)"
| "filter_calls filename ((call_name, call_list) # rest) d calls_to_remove =
     (let filtered_calls = filter (\<lambda>call. ci_filename call \<noteq> filename) call_list
      in if filtered_calls = []
         then filter_calls filename rest d (calls_to_remove @ [call_name])
         else filter_calls filename rest (DAList.update call_name filtered_calls d)
                calls_to_remove)"

definition remove_file_data :: "BSLCache \<Rightarrow> ustr \<Rightarrow> error + BSLCache" where
  "remove_file_data c filename =
     (case pop_all (methods c) (indices_to_remove (methods c) filename) of
        Inl e \<Rightarrow> Inl e
      | Inr ms \<Rightarrow>
          (let c1 = c\<lparr>methods := ms\<rparr>;
               c2 = rebuild_indices c1;
               c3 = c2\<lparr>module_vars := DAList.delete filename (module_vars c2)\<rparr>;
               r = filter_calls filename (DAList.impl_of (calls c3)) (calls c3) [];
               c4 = c3\<lparr>calls := foldl (\<lambda>d call_name. DAList.delete call_name d) (fst r) (snd r)\<rparr>
           in Inr (c4\<lparr>modules := filter (\<lambda>module. mo_filename module \<noteq> filename) (modules c4)\<rparr>)))"

subsection \<open>Statistics\<close>

record stats =
  st_methods :: nat
  st_exported_methods :: nat
  st_module_vars :: nat
  st_calls :: nat
  st_unique_calls :: nat
  st_modules :: nat

definition get_stats :: "BSLCache \<Rightarrow> stats" where
  "get_stats c =
     \<lparr>st_methods = length (methods c),
      st_exported_methods = length (method_export_index c),
      st_module_vars = sum_list (map (\<lambda>(k, vars_list). length vars_list) (DAList.impl_of (module_vars c))),
      st_calls = sum_list (map (\<lambda>(k, calls_list). length calls_list) (DAList.impl_of (calls c))),
      st_unique_calls = length (DAList.impl_of (calls c)),
      st_modules = length (modules c)\<rparr>"

subsection \<open>Sequences of mutating operations\<close>

datatype cache_op =
    AddMethod BSLMethod ustr ustr
  | AddModuleVar BSLModuleVar ustr
  | AddCall BSLCallPosition ustr ustr ustr
  | AddMethodsBatch "(BSLMethod \<times> ustr \<times> ustr) list"
  | AddModuleVarsBatch "(BSLModuleVar \<times> ustr) list"
  | AddCallsBatch "(BSLCallPosition \<times> ustr \<times> ustr \<times> ustr) list"
  | AddModule BSLModuleInfo
  | RemoveFileData ustr
  | Clear

fun apply_op :: "BSLCache \<Rightarrow> cache_op \<Rightarrow> error + BSLCache" where
  "apply_op c (AddMethod method filename module) = Inr (add_method c method filename module)"
| "apply_op c (AddModuleVar var filename) = Inr (add_module_var c var filename)"
| "apply_op c (AddCall call filename method_name module) =
     Inr (add_call c call filename method_name module)"
| "apply_op c (AddMethodsBatch methods_data) = Inr (add_methods_batch c methods_data)"
| "apply_op c (AddModuleVarsBatch vars_data) = Inr (add_module_vars_batch c vars_data)"
| "apply_op c (AddCallsBatch calls_data) = Inr (add_calls_batch c calls_data)"
| "apply_op c (AddModule module_info) = Inr (add_module c module_info)"
| "apply_op c (RemoveFileData filename) = remove_file_data c filename"
| "apply_op c Clear = Inr (clear c)"

text \<open>The operations run in order on a cache; an exception ends the run.\<close>

fun run_ops :: "BSLCache \<Rightarrow> cache_op list \<Rightarrow> error + BSLCache" where
  "run_ops c [] = Inr c"
| "run_ops c (x # xs) = (case apply_op c x of Inl e \<Rightarrow> Inl e | Inr c' \<Rightarrow> run_ops c' xs)"

subsection \<open>What the specification says, in its words\<close>

text \<open>
  The positions of the method list that hold an entry of a given lower-cased name, of a
  given lower-cased non-empty module, and of an exported method.
\<close>

definition name_positions :: "BSLMethodInfo list \<Rightarrow> ustr \<Rightarrow> nat list" where
  "name_positions ms k =
     filter (\<lambda>i. str_lower (m_name (mi_method (ms ! i))) = k) [0..<length ms]"

definition module_positions :: "BSLMethodInfo list \<Rightarrow> ustr \<Rightarrow> nat list" where
  "module_positions ms k =
     filter (\<lambda>i. mi_module (ms ! i) \<noteq> [] \<and> str_lower (mi_module (ms ! i)) = k) [0..<length ms]"

definition export_positions :: "BSLMethodInfo list \<Rightarrow> nat list" where
  "export_positions ms = filter (\<lambda>i. m_is_export (mi_method (ms ! i))) [0..<length ms]"

text \<open>An index has an entry for a key exactly when some position belongs to the key.\<close>

definition positions_entry :: "nat list \<Rightarrow> nat list option" where
  "positions_entry ps = (if ps = [] then None else Some ps)"

definition indexes_consistent :: "BSLCache \<Rightarrow> bool" where
  "indexes_consistent c \<longleftrightarrow>
     (\<forall>k. DAList.lookup (method_name_index c) k = positions_entry (name_positions (methods c) k))
   \<and> (\<forall>k. DAList.lookup (method_module_index c) k
            = positions_entry (module_positions (methods c) k))
   \<and> method_export_index c = export_positions (methods c)"

text \<open>Insertion one by one, which the batched variants are specified to equal.\<close>

definition add_methods_one_by_one :: "BSLCache \<Rightarrow> (BSLMethod \<times> ustr \<times> ustr) list \<Rightarrow> BSLCache" where
  "add_methods_one_by_one c methods_data =
     foldl (\<lambda>c (method, filename, module). add_method c method filename module) c methods_data"

definition add_module_vars_one_by_one :: "BSLCache \<Rightarrow> (BSLModuleVar \<times> ustr) list \<Rightarrow> BSLCache" where
  "add_module_vars_one_by_one c vars_data =
     foldl (\<lambda>c (var, filename). add_module_var c var filename) c vars_data"

definition add_calls_one_by_one ::
  "BSLCache \<Rightarrow> (BSLCallPosition \<times> ustr \<times> ustr \<times> ustr) list \<Rightarrow> BSLCache" where
  "add_calls_one_by_one c calls_data =
     foldl (\<lambda>c (call, filename, method_name, module). add_call c call filename method_name module)
       c calls_data"

text \<open>A file owns nothing in the cache.\<close>

definition file_absent :: "BSLCache \<Rightarrow> ustr \<Rightarrow> bool" where
  "file_absent c filename \<longleftrightarrow>
     list_all (\<lambda>mi. mi_filename mi \<noteq> filename) (methods c)
   \<and> DAList.lookup (module_vars c) filename = None
   \<and> list_all (\<lambda>(k, l). list_all (\<lambda>ci. ci_filename ci \<noteq> filename) l) (DAList.impl_of (calls c))
   \<and> list_all (\<lambda>mo. mo_filename mo \<noteq> filename) (modules c)"

subsection \<open>Auxiliary notions\<close>

text \<open>The cache with its three indexes emptied, as the first lines of \<open>_rebuild_indices\<close> do.\<close>

definition clear_indexes :: "BSLCache \<Rightarrow> BSLCache" where
  "clear_indexes c = c\<lparr>method_name_index := DAList.empty, method_module_index := DAList.empty,
          method_export_index := []\<rparr>"

text \<open>The indexes are exactly what a rebuild from the method list gives.\<close>

definition exact_indexes :: "BSLCache \<Rightarrow> bool" where
  "exact_indexes c \<longleftrightarrow> rebuild_indices c = c"

text \<open>The call records of a bucket that belong to other files, and the buckets that keep one.\<close>

definition keep_other :: "ustr \<Rightarrow> BSLCallInfo list \<Rightarrow> BSLCallInfo list" where
  "keep_other f l = filter (\<lambda>call. ci_filename call \<noteq> f) l"

definition pruned :: "ustr \<Rightarrow> (ustr \<times> BSLCallInfo list) list \<Rightarrow> (ustr \<times> BSLCallInfo list) list" where
  "pruned f al = map (\<lambda>(k, l). (k, keep_other f l)) (filter (\<lambda>(k, l). keep_other f l \<noteq> []) al)"

text \<open>Every bucket of call records holds a record, as every bucket \<open>add_call\<close> makes does.\<close>

definition no_empty_bucket :: "BSLCache \<Rightarrow> bool" where
  "no_empty_bucket c \<longleftrightarrow> list_all (\<lambda>(k, l). l \<noteq> []) (DAList.impl_of (calls c))"

text \<open>What every state reached by the operations of the cache satisfies.\<close>

definition cache_inv :: "BSLCache \<Rightarrow> bool" where
  "cache_inv c \<longleftrightarrow> exact_indexes c \<and> no_empty_bucket c"

section \<open>Module names from paths (bsl\_language\_server.py)\<close>

text \<open>
  \<open>s.split(sep)\<close> for a separator of one character: the pieces between the
  occurrences of the separator, of which there is always one more than separators.
\<close>

fun split_on :: "nat \<Rightarrow> ustr \<Rightarrow> ustr list" where
  "split_on sep [] = [[]]"
| "split_on sep (c # cs) =
     (if c = sep then [] # split_on sep cs
      else (case split_on sep cs of [] \<Rightarrow> [[c]] | w # ws \<Rightarrow> (c # w) # ws))"

text \<open>\<open>s.replace(a, b)\<close> for single characters, and \<open>s.startswith(p)\<close>.\<close>

definition replace_char :: "nat \<Rightarrow> nat \<Rightarrow> ustr \<Rightarrow> ustr" where
  "replace_char a b s = map (\<lambda>c. if c = a then b else c) s"

definition startswith :: "ustr \<Rightarrow> ustr \<Rightarrow> bool" where
  "startswith s p \<longleftrightarrow> take (length p) s = p"

text \<open>
  The table \<open>type_mapping\<close> of \<open>_get_module_for_path\<close>: the English names of the
  container kinds (Documents, Catalogs, InformationRegisters, AccumulationRegisters, Enums,
  Constants, CommonCommands, WebServices, BusinessProcesses, Tasks) and their Russian names.
\<close>

definition type_mapping :: "(ustr \<times> ustr) list" where
  "type_mapping =
     [([68, 111, 99, 117, 109, 101, 110, 116, 115],
       [1044, 1086, 1082, 1091, 1084, 1077, 1085, 1090, 1099]),
      ([67, 97, 116, 97, 108, 111, 103, 115],
       [1057, 1087, 1088, 1072, 1074, 1086, 1095, 1085, 1080, 1082, 1080]),
      ([73, 110, 102, 111, 114, 109, 97, 116, 105, 111, 110, 82, 101, 103, 105, 115, 116, 101, 114, 115],
       [1056, 1077, 1075, 1080, 1089, 1090, 1088, 1099, 1057, 1074, 1077, 1076, 1077, 1085, 1080, 1081]),
      ([65, 99, 99, 117, 109, 117, 108, 97, 116, 105, 111, 110, 82, 101, 103, 105, 115, 116, 101, 114, 115],
       [1056, 1077, 1075, 1080, 1089, 1090, 1088, 1099, 1053, 1072, 1082, 1086, 1087, 1083, 1077, 1085, 1080, 1103]),
      ([69, 110, 117, 109, 115],
       [1055, 1077, 1088, 1077, 1095, 1080, 1089, 1083, 1077, 1085, 1080, 1103]),
      ([67, 111, 110, 115, 116, 97, 110, 116, 115],
       [1050, 1086, 1085, 1089, 1090, 1072, 1085, 1090, 1099]),
      ([67, 111, 109, 109, 111, 110, 67, 111, 109, 109, 97, 110, 100, 115],
       [1054, 1073, 1097, 1080, 1077, 1050, 1086, 1084, 1072, 1085, 1076, 1099]),
      ([87, 101, 98, 83, 101, 114, 118, 105, 99, 101, 115],
       [1042, 1077, 1073, 1057, 1077, 1088, 1074, 1080, 1089, 1099]),
      ([66, 117, 115, 105, 110, 101, 115, 115, 80, 114, 111, 99, 101, 115, 115, 101, 115],
       [1041, 1080, 1079, 1085, 1077, 1089, 1055, 1088, 1086, 1094, 1077, 1089, 1089, 1099]),
      ([84, 97, 115, 107, 115],
       [1047, 1072, 1076, 1072, 1095, 1080])]"

text \<open>The two spellings of the common-modules container: \<open>CommonModules\<close> and its Russian name.\<close>

definition s_CommonModules :: ustr where
  "s_CommonModules = [67, 111, 109, 109, 111, 110, 77, 111, 100, 117, 108, 101, 115]"

definition s_ObshchieModuli :: ustr where
  "s_ObshchieModuli = [1054, 1073, 1097, 1080, 1077, 1052, 1086, 1076, 1091, 1083, 1080]"

text \<open>
  \<open>_get_module_for_path\<close>. Code point 92 is the backslash, 47 the slash, 46 the full
  stop. Nothing in the body of the \<open>try\<close> can raise: slices never do, and
  \<open>parts[hierarchy - 4]\<close> and \<open>parts[hierarchy - 3]\<close> are read only when
  \<open>hierarchy > 3\<close>.
\<close>

definition get_module_for_path :: "ustr \<Rightarrow> ustr \<Rightarrow> ustr" where
  "get_module_for_path fullpath root_path =
     (let rel_path = (if root_path \<noteq> [] \<and> (last root_path = 92 \<or> last root_path = 47)
                      then drop (length root_path) fullpath
                      else drop (length root_path + 1) fullpath);
          parts = split_on 47 (replace_char 92 47 rel_path);
          hierarchy = length parts
      in if hierarchy > 3
         then (let parent_type = parts ! (hierarchy - 4)
               in if startswith parent_type s_CommonModules
                     \<or> startswith parent_type s_ObshchieModuli
                  then parts ! (hierarchy - 3)
                  else (let mapped_type = (case map_of type_mapping parent_type of
                                             Some t \<Rightarrow> t | None \<Rightarrow> parent_type)
                        in mapped_type @ [46] @ parts ! (hierarchy - 3)))
         else [])"

text \<open>
  A path below the root with given segments: the segments joined by separators, each of
  them a slash or a backslash (both occur, the backslash in the paths of Windows).
  \<open>seps\<close> gives the separator after each segment but the last.
\<close>

fun join_segments :: "ustr list \<Rightarrow> nat list \<Rightarrow> ustr" where
  "join_segments [] seps = []"
| "join_segments [s] seps = s"
| "join_segments (s # t # ss) [] = s"
| "join_segments (s # t # ss) (sep # seps) = s @ sep # join_segments (t # ss) seps"

text \<open>
  The module identifier the specification gives for a list of segments.
\<close>

definition module_of_segments :: "ustr list \<Rightarrow> ustr" where
  "module_of_segments segs =
     (if length segs > 3
      then (let container = segs ! (length segs - 4); following = segs ! (length segs - 3)
            in if startswith container s_CommonModules \<or> startswith container s_ObshchieModuli
               then following
               else (case map_of type_mapping container of
                       Some t \<Rightarrow> t | None \<Rightarrow> container) @ [46] @ following)
      else [])"

section \<open>The parser (bsl\_parser.py)\<close>

subsection \<open>Character classes and string operations\<close>

text \<open>
  Whitespace as \<open>str.strip\<close>, \<open>str.lstrip\<close> and the class \<open>\s\<close> of the \<open>re\<close>
  module understand it: the code points for which \<open>str.isspace\<close> holds.
\<close>

definition is_space :: "nat \<Rightarrow> bool" where
  "is_space c \<longleftrightarrow>
     (9 \<le> c \<and> c \<le> 13) \<or> (28 \<le> c \<and> c \<le> 32) \<or> c = 133 \<or> c = 160 \<or> c = 5760
     \<or> (8192 \<le> c \<and> c \<le> 8202) \<or> c = 8232 \<or> c = 8233 \<or> c = 8239 \<or> c = 8287 \<or> c = 12288"

text \<open>
  The class \<open>\w\<close>, which under \<open>re.IGNORECASE\<close> is also all the class
  \<open>[a-ya yo A-YA YO \w]\<close> of the patterns matches: digits, letters and the underscore.
  Letters are modelled for Basic Latin and for the Cyrillic block (\<open>U+0400-U+0481\<close>,
  \<open>U+048A-U+052F\<close>); every other code point counts as not a word character. Matching
  without regard to case compares \<open>lower_cp\<close> of the two code points. The theorems
  about every source text below are proved without unfolding these classes.
\<close>

definition is_word :: "nat \<Rightarrow> bool" where
  "is_word c \<longleftrightarrow>
     (48 \<le> c \<and> c \<le> 57) \<or> (65 \<le> c \<and> c \<le> 90) \<or> c = 95 \<or> (97 \<le> c \<and> c \<le> 122)
     \<or> (1024 \<le> c \<and> c \<le> 1153) \<or> (1162 \<le> c \<and> c \<le> 1327)"

definition lstrip :: "ustr \<Rightarrow> ustr" where
  "lstrip s = dropWhile is_space s"

definition strip :: "ustr \<Rightarrow> ustr" where
  "strip s = rev (dropWhile is_space (rev (dropWhile is_space s)))"

text \<open>\<open>p in s\<close> for strings, and \<open>s.find(p)\<close> (\<open>None\<close> for \<open>-1\<close>).\<close>

fun contains :: "ustr \<Rightarrow> ustr \<Rightarrow> bool" where
  "contains s [] = True"
| "contains [] (p # ps) = False"
| "contains (c # cs) (p # ps) = (startswith (c # cs) (p # ps) \<or> contains cs (p # ps))"

fun find_sub :: "ustr \<Rightarrow> ustr \<Rightarrow> nat option" where
  "find_sub [] p = (if p = [] then Some 0 else None)"
| "find_sub (c # cs) p =
     (if startswith (c # cs) p then Some 0 else map_option Suc (find_sub cs p))"

text \<open>\<open>s.find(ch, start)\<close> for one character.\<close>

definition find_char_from :: "ustr \<Rightarrow> nat \<Rightarrow> nat \<Rightarrow> nat option" where
  "find_char_from s ch start =
     map_option (\<lambda>i. start + i) (find_sub (drop start s) [ch])"

text \<open>The slice \<open>s[i:j]\<close> for indices that are not negative.\<close>

definition slice :: "ustr \<Rightarrow> nat \<Rightarrow> nat \<Rightarrow> ustr" where
  "slice s i j = take (j - i) (drop i s)"

text \<open>\<open>'\n'.join(xs)\<close>; code point 10 is the line feed.\<close>

fun join_lines :: "ustr list \<Rightarrow> ustr" where
  "join_lines [] = []"
| "join_lines [s] = s"
| "join_lines (s # t # ss) = s @ 10 # join_lines (t # ss)"

text \<open>A literal of a pattern, matched at the start of the text without regard to case.\<close>

fun match_ci :: "ustr \<Rightarrow> ustr \<Rightarrow> ustr option" where
  "match_ci [] s = Some s"
| "match_ci (l # ls) [] = None"
| "match_ci (l # ls) (c # cs) = (if lower_cp c = lower_cp l then match_ci ls cs else None)"

text \<open>The first alternative that matches, as the \<open>re\<close> module tries them in order.\<close>

fun first_match :: "('a \<Rightarrow> 'b option) \<Rightarrow> 'a list \<Rightarrow> 'b option" where
  "first_match f [] = None"
| "first_match f (x # xs) = (case f x of Some y \<Rightarrow> Some y | None \<Rightarrow> first_match f xs)"

subsection \<open>The patterns of procedure and function openings\<close>

text \<open>
  The words of the language that the patterns and the checks of the parser name, by their
  code points: the keywords for procedure, function, their two closing keywords, export
  (capitalised and in lower case), by-value (likewise), the variable keyword, and the three
  context names (as written and in lower case).
\<close>

definition s_Protsedura :: ustr where
  "s_Protsedura = [1055, 1088, 1086, 1094, 1077, 1076, 1091, 1088, 1072]"

definition s_Funktsiya :: ustr where
  "s_Funktsiya = [1060, 1091, 1085, 1082, 1094, 1080, 1103]"

definition s_KonetsProtsedury :: ustr where
  "s_KonetsProtsedury = [1050, 1086, 1085, 1077, 1094, 1055, 1088, 1086, 1094, 1077, 1076, 1091, 1088, 1099]"

definition s_KonetsFunktsii :: ustr where
  "s_KonetsFunktsii = [1050, 1086, 1085, 1077, 1094, 1060, 1091, 1085, 1082, 1094, 1080, 1080]"

definition s_Eksport :: ustr where
  "s_Eksport = [1069, 1082, 1089, 1087, 1086, 1088, 1090]"

definition s_eksport :: ustr where
  "s_eksport = [1101, 1082, 1089, 1087, 1086, 1088, 1090]"

definition s_Znach :: ustr where
  "s_Znach = [1047, 1085, 1072, 1095]"

definition s_znach :: ustr where
  "s_znach = [1079, 1085, 1072, 1095]"

definition s_Perem :: ustr where
  "s_Perem = [1055, 1077, 1088, 1077, 1084]"

definition s_NaServere :: ustr where
  "s_NaServere = [1053, 1072, 1057, 1077, 1088, 1074, 1077, 1088, 1077]"

definition s_NaKliente :: ustr where
  "s_NaKliente = [1053, 1072, 1050, 1083, 1080, 1077, 1085, 1090, 1077]"

definition s_NaServereBezKonteksta :: ustr where
  "s_NaServereBezKonteksta = [1053, 1072, 1057, 1077, 1088, 1074, 1077, 1088, 1077, 1041, 1077, 1079, 1050, 1086, 1085, 1090, 1077, 1082, 1089, 1090, 1072]"

definition s_naservere :: ustr where
  "s_naservere = [1085, 1072, 1089, 1077, 1088, 1074, 1077, 1088, 1077]"

definition s_nakliente :: ustr where
  "s_nakliente = [1085, 1072, 1082, 1083, 1080, 1077, 1085, 1090, 1077]"

definition s_naserverebezkonteksta :: ustr where
  "s_naserverebezkonteksta = [1085, 1072, 1089, 1077, 1088, 1074, 1077, 1088, 1077, 1073, 1077, 1079, 1082, 1086, 1085, 1090, 1077, 1082, 1089, 1090, 1072]"

text \<open>
  \<open>PROC_PATTERN\<close> and \<open>FUNC_PATTERN\<close> differ in the keyword only. After \<open>^\<close> the
  pattern is: \<open>\s*\<close>, an optional annotation (an ampersand and one of three context
  names), \<open>\s*\<close>, an optional export keyword with \<open>\s+\<close>, the keyword, \<open>\s+\<close>, the
  name (group 1), \<open>\s*\<close> and an opening parenthesis (code point 40). A match gives the
  name and the text left after the match. Each greedy repetition is followed by something
  its own characters cannot start, so the longest repetition is the only one that can lead
  to a match; the optional parts are tried first with and then without their content.
\<close>

definition match_keyword_name :: "ustr \<Rightarrow> ustr \<Rightarrow> (ustr \<times> ustr) option" where
  "match_keyword_name kw s =
     (case match_ci kw s of
        None \<Rightarrow> None
      | Some r \<Rightarrow>
          if r \<noteq> [] \<and> is_space (hd r)
          then (let r1 = dropWhile is_space r;
                    name = takeWhile is_word r1;
                    r2 = dropWhile is_space (dropWhile is_word r1)
                in if name \<noteq> [] \<and> r2 \<noteq> [] \<and> hd r2 = 40 then Some (name, tl r2) else None)
          else None)"

definition match_export_keyword :: "ustr \<Rightarrow> ustr \<Rightarrow> (ustr \<times> ustr) option" where
  "match_export_keyword kw s =
     (case (case match_ci s_Eksport s of
              None \<Rightarrow> None
            | Some r \<Rightarrow>
                if r \<noteq> [] \<and> is_space (hd r)
                then match_keyword_name kw (dropWhile is_space r) else None) of
        Some m \<Rightarrow> Some m
      | None \<Rightarrow> match_keyword_name kw s)"

definition annotations :: "ustr list" where
  "annotations = [38 # s_NaServere, 38 # s_NaKliente, 38 # s_NaServereBezKonteksta]"

definition match_opening :: "ustr \<Rightarrow> ustr \<Rightarrow> (ustr \<times> ustr) option" where
  "match_opening kw s =
     (let s1 = dropWhile is_space s
      in case first_match
                (\<lambda>a. case match_ci a s1 of
                        None \<Rightarrow> None
                      | Some r \<Rightarrow> match_export_keyword kw (dropWhile is_space r))
                annotations of
           Some m \<Rightarrow> Some m
         | None \<Rightarrow> match_export_keyword kw s1)"

text \<open>
  \<open>pattern.finditer(text)\<close> for a pattern that starts with \<open>^\<close> under
  \<open>re.MULTILINE\<close>: a match may start at the start of the text and after each line feed.
  The text is walked from left to right; \<open>pos\<close> is the position, \<open>bol\<close> says that a line
  starts here, and \<open>skip\<close> counts the characters still covered by the last match, inside
  which no match starts. Each match is given as its start, its group and its length.
\<close>

fun finditer_bol ::
  "(ustr \<Rightarrow> ('a \<times> ustr) option) \<Rightarrow> nat \<Rightarrow> nat \<Rightarrow> bool \<Rightarrow> ustr \<Rightarrow> (nat \<times> 'a \<times> nat) list" where
  "finditer_bol M pos skip bol [] = []"
| "finditer_bol M pos skip bol (c # cs) =
     (if skip = 0 \<and> bol
      then (case M (c # cs) of
              Some (x, rest) \<Rightarrow>
                (pos, x, length (c # cs) - length rest)
                # finditer_bol M (Suc pos) (length (c # cs) - length rest - 1) (c = 10) cs
            | None \<Rightarrow> finditer_bol M (Suc pos) 0 (c = 10) cs)
      else finditer_bol M (Suc pos) (skip - 1) (c = 10) cs)"

definition finditer_opening :: "ustr \<Rightarrow> ustr \<Rightarrow> (nat \<times> ustr \<times> nat) list" where
  "finditer_opening kw text = finditer_bol (match_opening kw) 0 0 True text"

text \<open>\<open>pattern.search(line)\<close>: the first match, of which the loop below reads the start.\<close>

definition search_opening :: "ustr \<Rightarrow> ustr \<Rightarrow> nat option" where
  "search_opening kw line =
     (case finditer_opening kw line of [] \<Rightarrow> None | (start, x) # ms \<Rightarrow> Some start)"

text \<open>
  \<open>PROC_END_PATTERN\<close> and \<open>FUNC_END_PATTERN\<close>: \<open>^\s*\<close> and the closing keyword.
\<close>

definition match_end :: "ustr \<Rightarrow> ustr \<Rightarrow> (unit \<times> ustr) option" where
  "match_end kw s = map_option (\<lambda>r. ((), r)) (match_ci kw (dropWhile is_space s))"

definition search_end :: "ustr \<Rightarrow> ustr \<Rightarrow> bool" where
  "search_end kw line = (finditer_bol (match_end kw) 0 0 True line \<noteq> [])"

subsection \<open>The end of a method\<close>

text \<open>
  \<open>_find_method_end\<close>: the loop over the lines after \<open>start_line\<close>, with the nesting
  depth. An opening counts when the start of its match is the indentation of the line,
  \<open>len(line) - len(line.lstrip())\<close>; a line that matches an opening is not looked at for
  the closing keyword (the \<open>elif\<close>).
\<close>

fun find_end_loop :: "bool \<Rightarrow> nat \<Rightarrow> int \<Rightarrow> ustr list \<Rightarrow> nat option" where
  "find_end_loop is_proc i depth [] = None"
| "find_end_loop is_proc i depth (line # rest) =
     (let proc_match = search_opening s_Protsedura line;
          func_match = search_opening s_Funktsiya line
      in case (case proc_match of Some p \<Rightarrow> Some p | None \<Rightarrow> func_match) of
           Some match_pos \<Rightarrow>
             if match_pos = length line - length (lstrip line)
             then find_end_loop is_proc (Suc i) (depth + 1) rest
             else find_end_loop is_proc (Suc i) depth rest
         | None \<Rightarrow>
             if search_end (if is_proc then s_KonetsProtsedury else s_KonetsFunktsii) line
             then (if depth - 1 = 0 then Some i
                   else find_end_loop is_proc (Suc i) (depth - 1) rest)
             else find_end_loop is_proc (Suc i) depth rest)"

definition find_method_end :: "ustr \<Rightarrow> nat \<Rightarrow> bool \<Rightarrow> nat option" where
  "find_method_end source start_line is_proc =
     (let lines = split_on 10 source
      in find_end_loop is_proc (start_line + 1) 1 (drop (start_line + 1) lines))"

subsection \<open>Context, export flag, parameters and description of a method\<close>

text \<open>
  \<open>CONTEXT_PATTERN.search(line)\<close>: the first ampersand that one of the three context
  names follows; group 1 is the first of the names, in the order of the pattern, that
  matches there.
\<close>

fun search_context :: "ustr \<Rightarrow> ustr option" where
  "search_context [] = None"
| "search_context (c # cs) =
     (case (if c = 38
            then first_match
                   (\<lambda>a. case match_ci a cs of None \<Rightarrow> None | Some r \<Rightarrow> Some (take (length a) cs))
                   [s_NaServere, s_NaKliente, s_NaServereBezKonteksta]
            else None) of
        Some g \<Rightarrow> Some g
      | None \<Rightarrow> search_context cs)"

definition extract_context :: "ustr \<Rightarrow> ustr" where
  "extract_context line =
     (case search_context line of
        None \<Rightarrow> []
      | Some context \<Rightarrow>
          if str_lower context = s_naservere then s_NaServere
          else if str_lower context = s_nakliente then s_NaKliente
          else if str_lower context = s_naserverebezkonteksta then s_NaServereBezKonteksta
          else [])"

text \<open>
  \<open>EXPORT_PATTERN.search(line)\<close>: the export keyword, in any case, with a word boundary
  on each side. \<open>prev\<close> says that the character before is a word character.
\<close>

fun search_export :: "bool \<Rightarrow> ustr \<Rightarrow> bool" where
  "search_export prev [] = False"
| "search_export prev (c # cs) =
     ((\<not> prev \<and> (case match_ci s_Eksport (c # cs) of
                     None \<Rightarrow> False
                   | Some r \<Rightarrow> r = [] \<or> \<not> is_word (hd r)))
      \<or> search_export (is_word c) cs)"

text \<open>
  \<open>PARAM_PATTERN\<close>, matched at the start of the text: an optional by-value keyword
  with \<open>\s+\<close>, the name (group 1), and an optional default: \<open>\s*=\s*\<close> and group 2, one
  or more characters other than comma (44) and closing parenthesis (41). Where nothing but
  whitespace follows the equals sign (61) before a comma, a parenthesis or the end, the
  \<open>re\<close> module gives the last whitespace character back to group 2.
  A match gives its text, the name, group 2 if it took part, and the text left.
\<close>

definition match_default :: "ustr \<Rightarrow> (ustr \<times> ustr) option" where
  "match_default s =
     (let s1 = dropWhile is_space s
      in if s1 \<noteq> [] \<and> hd s1 = 61
         then (let ws = takeWhile is_space (tl s1);
                   s2 = dropWhile is_space (tl s1);
                   v = takeWhile (\<lambda>c. c \<noteq> 44 \<and> c \<noteq> 41) s2
               in if v \<noteq> [] then Some (v, dropWhile (\<lambda>c. c \<noteq> 44 \<and> c \<noteq> 41) s2)
                  else if ws \<noteq> [] then Some ([last ws], s2)
                  else None)
         else None)"

definition match_name_default :: "ustr \<Rightarrow> (ustr \<times> ustr option \<times> ustr) option" where
  "match_name_default s =
     (let name = takeWhile is_word s; r = dropWhile is_word s
      in if name = [] then None
         else (case match_default r of
                 Some (v, rest) \<Rightarrow> Some (name, Some v, rest)
               | None \<Rightarrow> Some (name, None, r)))"

definition match_param :: "ustr \<Rightarrow> ((ustr \<times> ustr \<times> ustr option) \<times> ustr) option" where
  "match_param s =
     (case (case (case match_ci s_Znach s of
                    None \<Rightarrow> None
                  | Some r \<Rightarrow>
                      if r \<noteq> [] \<and> is_space (hd r)
                      then match_name_default (dropWhile is_space r) else None) of
              Some m \<Rightarrow> Some m
            | None \<Rightarrow> match_name_default s) of
        None \<Rightarrow> None
      | Some (name, dflt, rest) \<Rightarrow>
          Some ((take (length s - length rest) s, name, dflt), rest))"

text \<open>\<open>finditer\<close> for a pattern without an anchor: a match may start anywhere.\<close>

fun finditer_any ::
  "(ustr \<Rightarrow> ('a \<times> ustr) option) \<Rightarrow> nat \<Rightarrow> nat \<Rightarrow> ustr \<Rightarrow> (nat \<times> 'a \<times> nat) list" where
  "finditer_any M pos skip [] = []"
| "finditer_any M pos skip (c # cs) =
     (if skip = 0
      then (case M (c # cs) of
              Some (x, rest) \<Rightarrow>
                (pos, x, length (c # cs) - length rest)
                # finditer_any M (Suc pos) (length (c # cs) - length rest - 1) cs
            | None \<Rightarrow> finditer_any M (Suc pos) 0 cs)
      else finditer_any M (Suc pos) (skip - 1) cs)"

definition make_param :: "nat \<times> (ustr \<times> ustr \<times> ustr option) \<times> nat \<Rightarrow> BSLParam" where
  "make_param m =
     (case m of (start, (text, param_name, group2), len) \<Rightarrow>
        \<lparr>p_name = param_name,
         p_byval = (contains text s_Znach \<or> contains text s_znach),
         p_default = (case group2 of None \<Rightarrow> None | Some d \<Rightarrow> Some (strip d))\<rparr>)"

definition extract_params :: "ustr \<Rightarrow> nat \<Rightarrow> ustr list \<Rightarrow> nat \<Rightarrow> BSLParam list" where
  "extract_params source start_pos lines start_line =
     (let declaration_line = (if start_line < length lines then lines ! start_line else [])
      in case find_sub declaration_line [40] of
           None \<Rightarrow> []
         | Some paren_start \<Rightarrow>
             (case (case find_char_from declaration_line 41 (paren_start + 1) of
                      None \<Rightarrow>
                        (let search_start = start_pos + paren_start + 1
                         in case find_char_from source 41 search_start of
                              None \<Rightarrow> None
                            | Some paren_end_pos \<Rightarrow> Some (slice source search_start paren_end_pos))
                    | Some paren_end \<Rightarrow> Some (slice declaration_line (paren_start + 1) paren_end)) of
                None \<Rightarrow> []
              | Some params_text \<Rightarrow>
                  if strip params_text \<noteq> []
                  then map make_param (finditer_any match_param 0 0 params_text)
                  else []))"

text \<open>
  \<open>_extract_description_before\<close>: the loop over the up to 20 lines before
  \<open>line_num\<close>, first to last, then the reversal and the join. The parser calls it with
  positions of \<open>lines\<close> only, so \<open>lines[i]\<close> is always in range.
\<close>

fun description_loop :: "ustr list \<Rightarrow> ustr list \<Rightarrow> ustr list" where
  "description_loop description_lines [] = description_lines"
| "description_loop description_lines (l # ls) =
     (let line = strip l
      in if description_lines = [] \<and> line = [] then description_loop description_lines ls
         else if startswith line [47, 47]
         then description_loop (description_lines @ [strip (drop 2 line)]) ls
         else (case find_sub line [47, 42] of
                 Some open_pos \<Rightarrow>
                   (case find_sub line [42, 47] of
                      Some close_pos \<Rightarrow>
                        (let comment = strip (slice line (open_pos + 2) close_pos)
                         in if comment \<noteq> []
                            then description_loop (description_lines @ [comment]) ls
                            else description_loop description_lines ls)
                    | None \<Rightarrow> description_loop description_lines ls)
               | None \<Rightarrow>
                   if line \<noteq> [] then description_lines
                   else description_loop description_lines ls))"

definition extract_description_before :: "ustr list \<Rightarrow> nat \<Rightarrow> ustr" where
  "extract_description_before lines line_num =
     strip (join_lines (rev (description_loop []
        (drop (line_num - 20) (take line_num lines)))))"

subsection \<open>Methods\<close>

text \<open>\<open>source[:pos].count('\n')\<close>.\<close>

definition line_of_pos :: "ustr \<Rightarrow> nat \<Rightarrow> nat" where
  "line_of_pos source pos = count_list (take pos source) 10"

text \<open>
  The loop of \<open>_parse_method_from_match\<close> over the line of the match and the next two:
  the first of them that holds the name and one of the two keywords, as written with a
  capital letter, becomes the start line.
\<close>

definition resync_start_line :: "ustr list \<Rightarrow> ustr \<Rightarrow> nat \<Rightarrow> nat" where
  "resync_start_line lines method_name start_line =
     (case find (\<lambda>check_line.
                   check_line < length lines \<and> contains (lines ! check_line) method_name
                   \<and> (contains (lines ! check_line) s_Protsedura
                        \<or> contains (lines ! check_line) s_Funktsiya)
                   \<and> contains (lines ! check_line) method_name)
             [start_line, start_line + 1, start_line + 2] of
        Some check_line \<Rightarrow> check_line
      | None \<Rightarrow> start_line)"

definition parse_method_from_match ::
  "ustr \<Rightarrow> ustr list \<Rightarrow> nat \<times> ustr \<times> nat \<Rightarrow> bool \<Rightarrow> BSLMethod option" where
  "parse_method_from_match source lines m is_proc =
     (case m of (start_pos, method_name, len) \<Rightarrow>
        (let start_line = resync_start_line lines method_name (line_of_pos source start_pos);
             declaration_line = (if start_line < length lines then lines ! start_line else []);
             context = extract_context declaration_line;
             is_export = search_export False declaration_line;
             params = extract_params source start_pos lines start_line
         in case find_method_end source start_line is_proc of
              None \<Rightarrow> None
            | Some end_line \<Rightarrow>
                Some \<lparr>m_name = method_name, m_line = start_line, m_endline = end_line,
                      m_isproc = is_proc, m_is_export = is_export, m_params = params,
                      m_description = extract_description_before lines start_line,
                      m_context = context, m_calls_position = []\<rparr>))"

text \<open>
  \<open>_parse_methods\<close>: the procedures, then the functions, then the stable sort by
  start line (\<open>sort_key\<close> is the stable insertion sort).
\<close>

definition parse_methods :: "ustr \<Rightarrow> ustr list \<Rightarrow> BSLMethod list" where
  "parse_methods source lines =
     sort_key m_line
       (List.map_filter (\<lambda>m. parse_method_from_match source lines m True)
          (finditer_opening s_Protsedura source)
        @ List.map_filter (\<lambda>m. parse_method_from_match source lines m False)
            (finditer_opening s_Funktsiya source))"

subsection \<open>Module variables\<close>

text \<open>
  \<open>MODULE_VAR_PATTERN\<close>: \<open>^\s*\<close>, the variable keyword, \<open>\s+\<close>, the name (group 1),
  an optional \<open>\s+\<close> with the export keyword in any case, \<open>\s*\<close> and a semicolon (59).
\<close>

definition match_semicolon :: "ustr \<Rightarrow> ustr option" where
  "match_semicolon s =
     (let s1 = dropWhile is_space s in if s1 \<noteq> [] \<and> hd s1 = 59 then Some (tl s1) else None)"

definition match_module_var :: "ustr \<Rightarrow> (ustr \<times> ustr) option" where
  "match_module_var s =
     (case match_ci s_Perem (dropWhile is_space s) of
        None \<Rightarrow> None
      | Some r \<Rightarrow>
          if r \<noteq> [] \<and> is_space (hd r)
          then (let r1 = dropWhile is_space r;
                    name = takeWhile is_word r1;
                    r2 = dropWhile is_word r1
                in if name = [] then None
                   else (case (case (if r2 \<noteq> [] \<and> is_space (hd r2)
                                     then match_ci s_Eksport (dropWhile is_space r2)
                                     else None) of
                                 None \<Rightarrow> None
                               | Some r3 \<Rightarrow> match_semicolon r3) of
                           Some rest \<Rightarrow> Some (name, rest)
                         | None \<Rightarrow> map_option (\<lambda>rest. (name, rest)) (match_semicolon r2)))
          else None)"

definition finditer_module_var :: "ustr \<Rightarrow> (nat \<times> ustr \<times> nat) list" where
  "finditer_module_var text = finditer_bol match_module_var 0 0 True text"

text \<open>
  \<open>_parse_module_vars\<close>: each match is stored under its name; a later declaration of
  a name replaces the earlier one and keeps its place in the dictionary.
\<close>

definition module_var_of_match :: "ustr \<Rightarrow> ustr list \<Rightarrow> nat \<times> ustr \<times> nat \<Rightarrow> BSLModuleVar" where
  "module_var_of_match source lines m =
     (case m of (start, var_name, len) \<Rightarrow>
        (let var_line = line_of_pos source start;
             var_text = take len (drop start source);
             is_export = (contains var_text s_Eksport \<or> contains var_text s_eksport)
         in \<lparr>v_name = var_name, v_is_export = is_export,
             v_description = extract_description_before lines var_line\<rparr>))"

definition parse_module_vars :: "ustr \<Rightarrow> ustr list \<Rightarrow> (ustr, BSLModuleVar) alist" where
  "parse_module_vars source lines =
     foldl (\<lambda>vars_dict m. DAList.update (fst (snd m)) (module_var_of_match source lines m) vars_dict)
       DAList.empty
       (finditer_module_var source)"

subsection \<open>Calls\<close>

text \<open>The set \<open>KEYWORDS\<close>: the lower-case words that are never calls.\<close>

definition KEYWORDS :: "ustr list" where
  "KEYWORDS =
     [[1077, 1089, 1083, 1080],
      [1080, 1085, 1072, 1095, 1077],
      [1080, 1085, 1072, 1095, 1077, 1077, 1089, 1083, 1080],
      [1082, 1086, 1085, 1077, 1094, 1077, 1089, 1083, 1080],
      [1087, 1086, 1082, 1072],
      [1082, 1086, 1085, 1077, 1094, 1094, 1080, 1082, 1083, 1072],
      [1076, 1083, 1103],
      [1082, 1072, 1078, 1076, 1086, 1075, 1086],
      [1080, 1079],
      [1094, 1080, 1082, 1083],
      [1087, 1088, 1086, 1094, 1077, 1076, 1091, 1088, 1072],
      [1092, 1091, 1085, 1082, 1094, 1080, 1103],
      [1082, 1086, 1085, 1077, 1094, 1087, 1088, 1086, 1094, 1077, 1076, 1091, 1088, 1099],
      [1082, 1086, 1085, 1077, 1094, 1092, 1091, 1085, 1082, 1094, 1080, 1080],
      [1074, 1086, 1079, 1074, 1088, 1072, 1090],
      [1087, 1088, 1077, 1088, 1074, 1072, 1090, 1100],
      [1087, 1088, 1086, 1076, 1086, 1083, 1078, 1080, 1090, 1100],
      [1087, 1086, 1087, 1099, 1090, 1082, 1072],
      [1080, 1089, 1082, 1083, 1102, 1095, 1077, 1085, 1080, 1077],
      [1074, 1099, 1079, 1074, 1072, 1090, 1100, 1080, 1089, 1082, 1083, 1102, 1095, 1077, 1085, 1080, 1077],
      [1085, 1086, 1074, 1099, 1081],
      [1090, 1080, 1087],
      [1090, 1080, 1087, 1079, 1085, 1095],
      [1085, 1077, 1086, 1087, 1088, 1077, 1076, 1077, 1083, 1077, 1085, 1086],
      [1080, 1089, 1090, 1080, 1085, 1072],
      [1083, 1086, 1078, 1100],
      [1089, 1086, 1086, 1073, 1097, 1080, 1090, 1100],
      [1089, 1086, 1086, 1073, 1097, 1077, 1085, 1080, 1077, 1087, 1086, 1083, 1100, 1079, 1086, 1074, 1072, 1090, 1077, 1083, 1102],
      [1087, 1091, 1089, 1090, 1072, 1103, 1089, 1090, 1088, 1086, 1082, 1072],
      [1089, 1090, 1088, 1096, 1072, 1073, 1083, 1086, 1085],
      [1085, 1072, 1089, 1077, 1088, 1074, 1077, 1088, 1077],
      [1085, 1072, 1082, 1083, 1080, 1077, 1085, 1090, 1077],
      [1085, 1072, 1089, 1077, 1088, 1074, 1077, 1088, 1077, 1073, 1077, 1079, 1082, 1086, 1085, 1090, 1077, 1082, 1089, 1090, 1072],
      [1101, 1082, 1089, 1087, 1086, 1088, 1090],
      [1079, 1085, 1072, 1095],
      [1087, 1077, 1088, 1077, 1084],
      [1082, 1086, 1085, 1077, 1094, 1086, 1073, 1083, 1072, 1089, 1090, 1080],
      [1086, 1073, 1083, 1072, 1089, 1090, 1100]]"

text \<open>
  \<open>CALL_PATTERN.finditer(line)\<close>: a word boundary, the name (group 1), \<open>\s*\<close> and an
  opening parenthesis. A match starts at a word character that no word character
  precedes. Each match is given as its start and its name.
\<close>

fun finditer_call :: "nat \<Rightarrow> nat \<Rightarrow> bool \<Rightarrow> ustr \<Rightarrow> (nat \<times> ustr) list" where
  "finditer_call pos skip prev [] = []"
| "finditer_call pos skip prev (c # cs) =
     (if skip = 0 \<and> \<not> prev \<and> is_word c
      then (let name = takeWhile is_word (c # cs);
                r = dropWhile is_space (dropWhile is_word (c # cs))
            in if r \<noteq> [] \<and> hd r = 40
               then (pos, name)
                    # finditer_call (Suc pos) (length (c # cs) - length (tl r) - 1) (is_word c) cs
               else finditer_call (Suc pos) 0 (is_word c) cs)
      else finditer_call (Suc pos) (skip - 1) (is_word c) cs)"

definition calls_in_line :: "nat \<Rightarrow> ustr \<Rightarrow> BSLCallPosition list" where
  "calls_in_line line_num line =
     map (\<lambda>(start, call_name). \<lparr>cp_call = call_name, cp_line = line_num, cp_character = start\<rparr>)
       (filter (\<lambda>(start, call_name). str_lower call_name \<notin> set KEYWORDS)
          (finditer_call 0 0 False line))"

text \<open>\<open>_parse_global_calls\<close>: the calls on the lines that lie in no method's range.\<close>

definition parse_global_calls :: "ustr list \<Rightarrow> BSLMethod list \<Rightarrow> BSLCallPosition list" where
  "parse_global_calls lines ms =
     concat (map (\<lambda>(line_num, line).
                    if list_ex (\<lambda>method. m_line method \<le> line_num \<and> line_num \<le> m_endline method) ms
                    then [] else calls_in_line line_num line)
               (enumerate 0 lines))"

text \<open>
  \<open>_parse_method_calls\<close>: the calls on the lines of the method, but for those that
  name the method itself.
\<close>

definition parse_method_calls :: "ustr list \<Rightarrow> BSLMethod \<Rightarrow> BSLCallPosition list" where
  "parse_method_calls lines method =
     (let method_lines = take (m_endline method + 1 - m_line method) (drop (m_line method) lines)
      in concat (map (\<lambda>(line_num, line).
                        filter (\<lambda>call. cp_call call \<noteq> m_name method) (calls_in_line line_num line))
                   (enumerate (m_line method) method_lines)))"

subsection \<open>The whole parse\<close>

record BSLParseResult =
  pr_methods :: "BSLMethod list"
  pr_global_calls :: "BSLCallPosition list"
  pr_module_vars :: "(ustr, BSLModuleVar) alist"

definition parse :: "ustr \<Rightarrow> BSLParseResult" where
  "parse source =
     (let lines = split_on 10 source;
          module_vars = parse_module_vars source lines;
          ms = parse_methods source lines;
          global_calls = parse_global_calls lines ms
      in \<lparr>pr_methods = map (\<lambda>method. method\<lparr>m_calls_position := parse_method_calls lines method\<rparr>) ms,
          pr_global_calls = global_calls,
          pr_module_vars = module_vars\<rparr>)"

subsection \<open>The end of a method, in the words of the specification\<close>

text \<open>
  From the line after the declaration, with a depth that starts at 1: an opening keyword
  of a procedure or function at the start of a line, leading whitespace ignored, increments
  the depth; the closing keyword of the method's kind decrements it; the line on which the
  depth reaches 0 is the end line.
\<close>

fun spec_end_loop :: "bool \<Rightarrow> nat \<Rightarrow> int \<Rightarrow> ustr list \<Rightarrow> nat option" where
  "spec_end_loop is_proc i depth [] = None"
| "spec_end_loop is_proc i depth (line # rest) =
     (if match_opening s_Protsedura line \<noteq> None \<or> match_opening s_Funktsiya line \<noteq> None
      then spec_end_loop is_proc (Suc i) (depth + 1) rest
      else if match_end (if is_proc then s_KonetsProtsedury else s_KonetsFunktsii) line \<noteq> None
      then (if depth - 1 = 0 then Some i
            else spec_end_loop is_proc (Suc i) (depth - 1) rest)
      else spec_end_loop is_proc (Suc i) depth rest)"

definition spec_method_end :: "ustr \<Rightarrow> nat \<Rightarrow> bool \<Rightarrow> nat option" where
  "spec_method_end source start_line is_proc =
     spec_end_loop is_proc (start_line + 1) 1 (drop (start_line + 1) (split_on 10 source))"

section \<open>The indexer (bsl\_language\_server.py)\<close>

subsection \<open>The projection into document symbols\<close>

text \<open>
  One entry of the projection, with the fields \<open>_convert_single_file_to_document_symbols\<close>
  computes itself: the name, the kind (12 for a function, 6 for a procedure), the range,
  the two paths of the location, the body, the detail and the description. The URI of the
  location, which \<open>pathlib\<close> derives from the absolute path, is left out.
\<close>

record DocumentSymbol =
  ds_name :: ustr
  ds_kind :: nat
  ds_start_line :: nat
  ds_start_char :: nat
  ds_end_line :: nat
  ds_end_char :: nat
  ds_absolute_path :: ustr
  ds_relative_path :: ustr
  ds_body :: ustr
  ds_detail :: "ustr option"
  ds_description :: "ustr option"

text \<open>\<open>sep.join(xs)\<close>.\<close>

fun join_with :: "ustr \<Rightarrow> ustr list \<Rightarrow> ustr" where
  "join_with sep [] = []"
| "join_with sep [s] = s"
| "join_with sep (s # t # ss) = s @ sep @ join_with sep (t # ss)"

text \<open>
  The last line of a method, clipped to the lines of the file, as both the conversion and
  \<open>_extract_method_body\<close> compute it.
\<close>

definition clipped_end_line :: "ustr list \<Rightarrow> BSLMethod \<Rightarrow> nat" where
  "clipped_end_line lines method =
     (if m_endline method < length lines then min (m_endline method) (length lines - 1)
      else length lines - 1)"

definition extract_method_body :: "ustr \<Rightarrow> BSLMethod \<Rightarrow> ustr" where
  "extract_method_body file_content method =
     (let lines = split_on 10 file_content;
          start_line = m_line method;
          end_line = clipped_end_line lines method
      in if start_line > end_line \<or> start_line \<ge> length lines then []
         else join_with [10] (take (end_line + 1 - start_line) (drop start_line lines)))"

definition method_symbol :: "ustr \<Rightarrow> ustr \<Rightarrow> ustr \<Rightarrow> BSLMethod \<Rightarrow> DocumentSymbol" where
  "method_symbol relative_file_path abs_path file_content method =
     (let lines = split_on 10 file_content;
          start_line = m_line method;
          end_line = clipped_end_line lines method;
          start_char = (if start_line < length lines
                        then (case find_sub (lines ! start_line) (m_name method) of
                                Some name_pos \<Rightarrow> name_pos | None \<Rightarrow> 0)
                        else 0);
          end_char = (if end_line < length lines then length (lines ! end_line) else 0);
          detail_parts = (if m_context method \<noteq> [] then [m_context method] else [])
                         @ (if m_is_export method then [s_Eksport] else [])
      in \<lparr>ds_name = m_name method,
          ds_kind = (if \<not> m_isproc method then 12 else 6),
          ds_start_line = start_line, ds_start_char = start_char,
          ds_end_line = end_line, ds_end_char = end_char,
          ds_absolute_path = abs_path, ds_relative_path = relative_file_path,
          ds_body = extract_method_body file_content method,
          ds_detail = (if detail_parts \<noteq> [] then Some (join_with [32, 124, 32] detail_parts)
                       else None),
          ds_description = (if m_description method \<noteq> [] then Some (m_description method)
                            else None)\<rparr>)"

subsection \<open>The state of the language server\<close>

text \<open>
  The caches of the server that indexing reads and writes. The local cache is the symbol
  cache; the document-symbol cache is the projection, a dictionary from the relative path
  to the content hash and the symbols. The type \<open>'h\<close> is the type of hashes.
\<close>

record 'h Server =
  local_cache :: "BSLCache option"
  document_symbols_cache :: "(ustr, 'h \<times> DocumentSymbol list) alist"
  document_symbols_cache_is_modified :: bool
  raw_document_symbols_cache :: "(ustr, 'h) alist"
  raw_document_symbols_cache_is_modified :: bool
  file_content_cache :: "(ustr, ustr) alist"
  converted_files :: "ustr list"

text \<open>
  \<open>_convert_single_file_to_document_symbols\<close>. Both of its branches store the hash with
  the symbols of the methods, which are none when there is no method.
\<close>

definition convert_single_file_to_document_symbols ::
  "'h Server \<Rightarrow> ustr \<Rightarrow> ustr \<Rightarrow> ustr \<Rightarrow> 'h \<Rightarrow> BSLMethod list \<Rightarrow> 'h Server" where
  "convert_single_file_to_document_symbols s relative_file_path abs_path file_content file_hash ms =
     (let document_symbols = (if ms = [] then []
                              else map (method_symbol relative_file_path abs_path file_content) ms)
      in s\<lparr>document_symbols_cache :=
              DAList.update relative_file_path (file_hash, document_symbols)
                (document_symbols_cache s),
            document_symbols_cache_is_modified := True,
            raw_document_symbols_cache :=
              DAList.update relative_file_path file_hash (raw_document_symbols_cache s),
            raw_document_symbols_cache_is_modified := True\<rparr>)"

subsection \<open>Indexing one file\<close>

text \<open>
  The file system and the hash function are outside the repository: \<open>files\<close> gives the
  text of the file at an absolute path (\<open>None\<close> where \<open>os.path.exists\<close> is false) and
  \<open>md5\<close> the digest of a text. \<open>os.path.join\<close> is the one of POSIX, for two parts.
  Reading a file that exists is taken to succeed, so the \<open>except\<close> branch of
  \<open>_parse_file_local\<close>, which logs and raises again, has no counterpart.
\<close>

definition path_join :: "ustr \<Rightarrow> ustr \<Rightarrow> ustr" where
  "path_join a b =
     (if b \<noteq> [] \<and> hd b = 47 then b
      else if a = [] \<or> last a = 47 then a @ b
      else a @ [47] @ b)"

text \<open>
  \<open>source.replace("\r\n", "\n").replace("\r", "\n")\<close>; code point 13 is the carriage
  return.
\<close>

fun normalize_newlines :: "ustr \<Rightarrow> ustr" where
  "normalize_newlines [] = []"
| "normalize_newlines [c] = (if c = 13 then [10] else [c])"
| "normalize_newlines (c # d # cs) =
     (if c = 13 \<and> d = 10 then 10 # normalize_newlines cs
      else if c = 13 then 10 # normalize_newlines (d # cs)
      else c # normalize_newlines (d # cs))"

text \<open>The name under which calls outside every method are recorded: \<open>GlobalModuleText\<close>.\<close>

definition s_GlobalModuleText :: ustr where
  "s_GlobalModuleText = [71, 108, 111, 98, 97, 108, 77, 111, 100, 117, 108, 101, 84, 101, 120, 116]"

text \<open>
  The insertions of \<open>_parse_file_local\<close> into the local cache: the methods, the module
  variables in the order of the dictionary, the global calls, and the calls of each method.
  Each batch is called only with a list that is not empty.
\<close>

definition cache_parse_result :: "BSLCache \<Rightarrow> BSLParseResult \<Rightarrow> ustr \<Rightarrow> ustr \<Rightarrow> BSLCache" where
  "cache_parse_result c parse_result relative_file_path module =
     (let c1 = (if pr_methods parse_result \<noteq> []
                then add_methods_batch c
                       (map (\<lambda>method. (method, relative_file_path, module)) (pr_methods parse_result))
                else c);
          c2 = (if DAList.impl_of (pr_module_vars parse_result) \<noteq> []
                then add_module_vars_batch c1
                       (map (\<lambda>(k, var). (var, relative_file_path))
                          (DAList.impl_of (pr_module_vars parse_result)))
                else c1);
          c3 = (if pr_global_calls parse_result \<noteq> []
                then add_calls_batch c2
                       (map (\<lambda>call. (call, relative_file_path, s_GlobalModuleText, module))
                          (pr_global_calls parse_result))
                else c2);
          method_calls = concat (map (\<lambda>method.
                            map (\<lambda>call. (call, relative_file_path, m_name method, module))
                              (m_calls_position method))
                          (pr_methods parse_result))
      in if method_calls \<noteq> [] then add_calls_batch c3 method_calls else c3)"

definition parse_file_local ::
  "ustr \<Rightarrow> (ustr \<Rightarrow> ustr option) \<Rightarrow> (ustr \<Rightarrow> 'h) \<Rightarrow> 'h Server \<Rightarrow> ustr \<Rightarrow> 'h Server" where
  "parse_file_local repository_root_path files md5 s relative_file_path =
     (case local_cache s of
        None \<Rightarrow> s
      | Some c \<Rightarrow>
          (let abs_path = path_join repository_root_path relative_file_path
           in case files abs_path of
                None \<Rightarrow> s
              | Some content \<Rightarrow>
                  (let source = normalize_newlines content;
                       file_hash = md5 source
                   in if (case DAList.lookup (document_symbols_cache s) relative_file_path of
                            Some (cached_hash, symbols) \<Rightarrow> cached_hash = file_hash
                          | None \<Rightarrow> False)
                      then s
                      else if strip source = [] then s
                      else (let parse_result = parse source;
                                module = get_module_for_path abs_path repository_root_path;
                                s1 = s\<lparr>local_cache :=
                                         Some (cache_parse_result c parse_result
                                                 relative_file_path module)\<rparr>
                            in convert_single_file_to_document_symbols s1 relative_file_path
                                 abs_path source file_hash (pr_methods parse_result)))))"

text \<open>
  \<open>_invalidate_file_cache\<close>: the file's entries leave the projection, the local cache
  and the other caches, and the file is parsed again.
\<close>

definition invalidate_file_cache ::
  "ustr \<Rightarrow> (ustr \<Rightarrow> ustr option) \<Rightarrow> (ustr \<Rightarrow> 'h) \<Rightarrow> 'h Server \<Rightarrow> ustr \<Rightarrow> error + 'h Server" where
  "invalidate_file_cache repository_root_path files md5 s relative_file_path =
     (let s1 = s\<lparr>document_symbols_cache :=
                    DAList.delete relative_file_path (document_symbols_cache s),
                  raw_document_symbols_cache :=
                    DAList.delete relative_file_path (raw_document_symbols_cache s)\<rparr>
      in case (case local_cache s1 of
                 None \<Rightarrow> Inr s1
               | Some c \<Rightarrow>
                   (case remove_file_data c relative_file_path of
                      Inl e \<Rightarrow> Inl e
                    | Inr c' \<Rightarrow> Inr (s1\<lparr>local_cache := Some c'\<rparr>))) of
           Inl e \<Rightarrow> Inl e
         | Inr s2 \<Rightarrow>
             (let s3 = s2\<lparr>file_content_cache :=
                            DAList.delete relative_file_path (file_content_cache s2),
                          converted_files :=
                            removeAll relative_file_path (converted_files s2)\<rparr>
              in Inr (parse_file_local repository_root_path files md5 s3 relative_file_path)))"

text \<open>The server as \<open>__init__\<close> leaves it, with its caches empty.\<close>

definition Server_init :: "'h Server" where
  "Server_init =
     \<lparr>local_cache = Some BSLCache_init,
      document_symbols_cache = DAList.empty, document_symbols_cache_is_modified = False,
      raw_document_symbols_cache = DAList.empty, raw_document_symbols_cache_is_modified = False,
      file_content_cache = DAList.empty, converted_files = []\<rparr>"

section \<open>Properties of the cache\<close>

subsection \<open>Dictionaries\<close>

lemma lookup_setdefault_append:
  "DAList.lookup (setdefault_append k v d) k' =
     (if k' = k then Some ((case DAList.lookup d k of None \<Rightarrow> [] | Some l \<Rightarrow> l) @ [v])
      else DAList.lookup d k')"
  by (auto simp: setdefault_append_def Let_def split: option.splits)

subsection \<open>Rebuilding the indexes\<close>

lemma rebuild_step_fields [simp]:
  "methods (rebuild_step c p) = methods c"
  "module_vars (rebuild_step c p) = module_vars c"
  "calls (rebuild_step c p) = calls c"
  "modules (rebuild_step c p) = modules c"
  "BSLCache.more (rebuild_step c p) = BSLCache.more c"
  by (simp_all add: rebuild_step_def Let_def)

lemma foldl_rebuild_step_fields [simp]:
  "methods (foldl rebuild_step c ps) = methods c"
  "module_vars (foldl rebuild_step c ps) = module_vars c"
  "calls (foldl rebuild_step c ps) = calls c"
  "modules (foldl rebuild_step c ps) = modules c"
  "BSLCache.more (foldl rebuild_step c ps) = BSLCache.more c"
  by (induction ps arbitrary: c) simp_all

lemma rebuild_indices_fields [simp]:
  "methods (rebuild_indices c) = methods c"
  "module_vars (rebuild_indices c) = module_vars c"
  "calls (rebuild_indices c) = calls c"
  "modules (rebuild_indices c) = modules c"
  by (simp_all add: rebuild_indices_def)

text \<open>The indexes the loop produces depend on the indexes it starts from only.\<close>

lemma rebuild_step_upd:
  "rebuild_step (c\<lparr>methods := ms\<rparr>) p = (rebuild_step c p)\<lparr>methods := ms\<rparr>"
  "rebuild_step (c\<lparr>module_vars := mv\<rparr>) p = (rebuild_step c p)\<lparr>module_vars := mv\<rparr>"
  "rebuild_step (c\<lparr>calls := cs\<rparr>) p = (rebuild_step c p)\<lparr>calls := cs\<rparr>"
  "rebuild_step (c\<lparr>modules := mo\<rparr>) p = (rebuild_step c p)\<lparr>modules := mo\<rparr>"
  by (simp_all add: rebuild_step_def Let_def)

lemma foldl_rebuild_step_upd:
  "foldl rebuild_step (c\<lparr>methods := ms\<rparr>) ps = (foldl rebuild_step c ps)\<lparr>methods := ms\<rparr>"
  "foldl rebuild_step (c\<lparr>module_vars := mv\<rparr>) ps = (foldl rebuild_step c ps)\<lparr>module_vars := mv\<rparr>"
  "foldl rebuild_step (c\<lparr>calls := cs\<rparr>) ps = (foldl rebuild_step c ps)\<lparr>calls := cs\<rparr>"
  "foldl rebuild_step (c\<lparr>modules := mo\<rparr>) ps = (foldl rebuild_step c ps)\<lparr>modules := mo\<rparr>"
  by (induction ps arbitrary: c; simp add: rebuild_step_upd)+

lemma rebuild_indices_alt:
  "rebuild_indices c = foldl rebuild_step (clear_indexes c) (enumerate 0 (methods c))"
  by (simp add: rebuild_indices_def clear_indexes_def)

lemma enumerate_snoc:
  "enumerate n (xs @ [x]) = enumerate n xs @ [(n + length xs, x)]"
  by (simp add: enumerate_append_eq)

lemma add_method_as_step:
  "add_method c method filename module =
     rebuild_step (c\<lparr>methods := methods c @ [\<lparr>mi_method = method, mi_filename = filename, mi_module = module\<rparr>]\<rparr>)
       (length (methods c), \<lparr>mi_method = method, mi_filename = filename, mi_module = module\<rparr>)"
  by (simp add: add_method_def rebuild_step_def Let_def)

lemma clear_indexes_upd:
  "clear_indexes (c\<lparr>methods := ms\<rparr>) = (clear_indexes c)\<lparr>methods := ms\<rparr>"
  "clear_indexes (c\<lparr>module_vars := mv\<rparr>) = (clear_indexes c)\<lparr>module_vars := mv\<rparr>"
  "clear_indexes (c\<lparr>calls := cs\<rparr>) = (clear_indexes c)\<lparr>calls := cs\<rparr>"
  "clear_indexes (c\<lparr>modules := mo\<rparr>) = (clear_indexes c)\<lparr>modules := mo\<rparr>"
  by (simp_all add: clear_indexes_def)

lemma rebuild_indices_snoc:
  "rebuild_indices (c\<lparr>methods := methods c @ [mi]\<rparr>) =
     rebuild_step ((rebuild_indices c)\<lparr>methods := methods c @ [mi]\<rparr>) (length (methods c), mi)"
  by (simp add: rebuild_indices_alt enumerate_snoc clear_indexes_upd foldl_rebuild_step_upd)

lemma exact_add_method:
  "exact_indexes c \<Longrightarrow> exact_indexes (add_method c method filename module)"
proof -
  assume a: "exact_indexes c"
  let ?mi = "\<lparr>mi_method = method, mi_filename = filename, mi_module = module\<rparr>"
  let ?c' = "add_method c method filename module"
  have m: "methods ?c' = methods c @ [?mi]" by (simp add: add_method_as_step)
  have "clear_indexes ?c' = clear_indexes (c\<lparr>methods := methods c @ [?mi]\<rparr>)"
    by (simp add: add_method_def clear_indexes_def Let_def)
  then have "rebuild_indices ?c' = rebuild_indices (c\<lparr>methods := methods c @ [?mi]\<rparr>)"
    by (simp add: rebuild_indices_alt m)
  also have "\<dots> = rebuild_step ((rebuild_indices c)\<lparr>methods := methods c @ [?mi]\<rparr>) (length (methods c), ?mi)"
    by (rule rebuild_indices_snoc)
  also have "\<dots> = ?c'" using a by (simp add: exact_indexes_def add_method_as_step)
  finally show ?thesis by (simp add: exact_indexes_def)
qed

lemma exact_rebuild: "exact_indexes (rebuild_indices c)"
proof -
  have "clear_indexes (rebuild_indices c) = clear_indexes c"
    by (simp add: clear_indexes_def rebuild_indices_def BSLCache.equality)
  then show ?thesis by (simp add: exact_indexes_def rebuild_indices_alt[of "rebuild_indices c"])
     (simp add: rebuild_indices_alt)
qed

lemma exact_upd:
  "exact_indexes c \<Longrightarrow> exact_indexes (c\<lparr>module_vars := mv\<rparr>)"
  "exact_indexes c \<Longrightarrow> exact_indexes (c\<lparr>calls := cs\<rparr>)"
  "exact_indexes c \<Longrightarrow> exact_indexes (c\<lparr>modules := mo\<rparr>)"
  by (simp_all add: exact_indexes_def rebuild_indices_alt clear_indexes_upd foldl_rebuild_step_upd)

lemma exact_init: "exact_indexes BSLCache_init"
  by (simp add: exact_indexes_def rebuild_indices_def BSLCache_init_def)

lemma exact_clear: "exact_indexes (clear c)"
  by (simp add: exact_indexes_def rebuild_indices_def clear_def)

subsection \<open>Consistency\<close>

lemma positions_snoc:
  "filter (\<lambda>i. P ((xs @ [x]) ! i)) [0..<length (xs @ [x])] =
     filter (\<lambda>i. P (xs ! i)) [0..<length xs] @ (if P x then [length xs] else [])"
proof -
  have "filter (\<lambda>i. P ((xs @ [x]) ! i)) [0..<length xs] = filter (\<lambda>i. P (xs ! i)) [0..<length xs]"
    by (rule filter_cong) (auto simp: nth_append)
  then show ?thesis by simp
qed

lemma consistent_step:
  assumes "indexes_consistent c"
  shows "indexes_consistent
           (rebuild_step (c\<lparr>methods := methods c @ [mi]\<rparr>) (length (methods c), mi))"
proof -
  have n: "\<And>k. DAList.lookup (method_name_index c) k = positions_entry (name_positions (methods c) k)"
    and m: "\<And>k. DAList.lookup (method_module_index c) k = positions_entry (module_positions (methods c) k)"
    and e: "method_export_index c = export_positions (methods c)"
    using assms by (simp_all add: indexes_consistent_def)
  have ns: "\<And>k. name_positions (methods c @ [mi]) k =
      name_positions (methods c) k @ (if str_lower (m_name (mi_method mi)) = k then [length (methods c)] else [])"
    unfolding name_positions_def by (rule positions_snoc)
  have ms: "\<And>k. module_positions (methods c @ [mi]) k =
      module_positions (methods c) k @ (if mi_module mi \<noteq> [] \<and> str_lower (mi_module mi) = k then [length (methods c)] else [])"
    unfolding module_positions_def by (rule positions_snoc)
  have es: "export_positions (methods c @ [mi]) =
      export_positions (methods c) @ (if m_is_export (mi_method mi) then [length (methods c)] else [])"
    unfolding export_positions_def by (rule positions_snoc)
  show ?thesis
    unfolding indexes_consistent_def
    by (auto simp: rebuild_step_def Let_def lookup_setdefault_append n m e ns ms es positions_entry_def)
qed

lemma consistent_foldl:
  "indexes_consistent (c\<lparr>methods := xs\<rparr>) \<Longrightarrow>
   indexes_consistent (foldl rebuild_step (c\<lparr>methods := xs @ ys\<rparr>) (enumerate (length xs) ys))"
proof (induction ys arbitrary: c rule: rev_induct)
  case Nil
  then show ?case by simp
next
  case (snoc y ys)
  let ?d = "foldl rebuild_step (c\<lparr>methods := xs @ ys\<rparr>) (enumerate (length xs) ys)"
  have d: "indexes_consistent ?d" using snoc by simp
  have "foldl rebuild_step (c\<lparr>methods := xs @ ys @ [y]\<rparr>) (enumerate (length xs) (ys @ [y]))
        = rebuild_step (?d\<lparr>methods := methods ?d @ [y]\<rparr>) (length (methods ?d), y)"
    by (simp add: enumerate_snoc foldl_rebuild_step_upd rebuild_step_upd)
  then show ?case using consistent_step[OF d, of y] by simp
qed

lemma consistent_rebuild: "indexes_consistent (rebuild_indices c)"
proof -
  have "indexes_consistent ((clear_indexes c)\<lparr>methods := []\<rparr>)"
    by (simp add: indexes_consistent_def clear_indexes_def name_positions_def module_positions_def
        export_positions_def positions_entry_def)
  from consistent_foldl[OF this, of "methods c"]
  show ?thesis by (simp add: rebuild_indices_alt clear_indexes_def)
qed

lemma exact_consistent: "exact_indexes c \<Longrightarrow> indexes_consistent c"
  using consistent_rebuild[of c] by (simp add: exact_indexes_def)

subsection \<open>Popping the entries of a file\<close>

lemma pop_all_append:
  "sorted_wrt (>) is \<Longrightarrow> \<forall>i\<in>set is. i < length xs \<Longrightarrow>
   pop_all (xs @ ys) is = (case pop_all xs is of Inl e \<Rightarrow> Inl e | Inr zs \<Rightarrow> Inr (zs @ ys))"
proof (induction "is" arbitrary: xs)
  case Nil
  then show ?case by simp
next
  case (Cons i "is")
  have i: "i < length xs" using Cons.prems by simp
  have b: "\<forall>j\<in>set is. j < length (take i xs @ drop (Suc i) xs)"
    using Cons.prems i by auto
  have s: "sorted_wrt (>) is" using Cons.prems by simp
  have "pop_all ((take i xs @ drop (Suc i) xs) @ ys) is
      = (case pop_all (take i xs @ drop (Suc i) xs) is of Inl e \<Rightarrow> Inl e | Inr zs \<Rightarrow> Inr (zs @ ys))"
    by (rule Cons.IH[OF s b])
  then show ?case using i by simp
qed

lemma indices_to_remove_snoc:
  "indices_to_remove (xs @ [x]) f =
     (if mi_filename x = f then [length xs] else []) @ indices_to_remove xs f"
proof -
  have "filter (\<lambda>idx. mi_filename ((xs @ [x]) ! idx) = f) (rev [0..<length xs])
      = filter (\<lambda>idx. mi_filename (xs ! idx) = f) (rev [0..<length xs])"
    by (rule filter_cong) (auto simp: nth_append)
  then show ?thesis by (simp add: indices_to_remove_def)
qed

lemma indices_to_remove_sorted: "sorted_wrt (>) (indices_to_remove xs f)"
proof -
  have "sorted_wrt (>) (rev [0..<length xs])"
    by (simp add: sorted_wrt_rev)  
  then show ?thesis unfolding indices_to_remove_def by (rule sorted_wrt_filter)
qed

lemma indices_to_remove_bound: "\<forall>i\<in>set (indices_to_remove xs f). i < length xs"
  by (simp add: indices_to_remove_def)

lemma pop_all_indices_to_remove:
  "pop_all ms (indices_to_remove ms f) = Inr (filter (\<lambda>mi. mi_filename mi \<noteq> f) ms)"
proof (induction ms rule: rev_induct)
  case Nil
  then show ?case by (simp add: indices_to_remove_def)
next
  case (snoc x xs)
  show ?case
  proof (cases "mi_filename x = f")
    case True
    then show ?thesis using snoc by (simp add: indices_to_remove_snoc)
  next
    case False
    have "pop_all (xs @ [x]) (indices_to_remove xs f)
        = (case pop_all xs (indices_to_remove xs f) of Inl e \<Rightarrow> Inl e | Inr zs \<Rightarrow> Inr (zs @ [x]))"
      by (rule pop_all_append[OF indices_to_remove_sorted indices_to_remove_bound])
    then show ?thesis using snoc False by (simp add: indices_to_remove_snoc)
  qed
qed

subsection \<open>Filtering the call records\<close>

lemma update_in_place:
  "k \<notin> fst ` set xs \<Longrightarrow> AList.update k v (xs @ (k, l) # ys) = xs @ (k, v) # ys"
  by (induction xs) auto

lemma filter_calls_char:
  assumes "DAList.impl_of d = done @ rest"
  shows "DAList.impl_of (fst (filter_calls f rest d rm))
           = done @ map (\<lambda>(k, l). (k, if keep_other f l = [] then l else keep_other f l)) rest
       \<and> snd (filter_calls f rest d rm)
           = rm @ map fst (filter (\<lambda>(k, l). keep_other f l = []) rest)"
  using assms
proof (induction rest arbitrary: d "done" rm)
  case Nil
  then show ?case by simp
next
  case (Cons p rest)
  obtain k l where p: "p = (k, l)" by (cases p)
  have dist: "distinct (map fst (done @ (k, l) # rest))"
    using DAList.impl_of_distinct[of d] Cons.prems p by simp
  show ?case
  proof (cases "keep_other f l = []")
    case True
    have "DAList.impl_of d = (done @ [(k, l)]) @ rest" using Cons.prems p by simp
    from Cons.IH[OF this, of "rm @ [k]"] True p show ?thesis
      by (simp add: keep_other_def)
  next
    case False
    have "k \<notin> fst ` set done" using dist by auto
    then have "DAList.impl_of (DAList.update k (keep_other f l) d)
        = (done @ [(k, keep_other f l)]) @ rest"
      using Cons.prems p by (simp add: DAList.update.rep_eq update_in_place)
    from Cons.IH[OF this, of rm] False p show ?thesis
      by (simp add: keep_other_def)
  qed
qed

lemma filter_delete_all:
  "filter (\<lambda>p. fst p \<notin> set ks) (AList.delete k xs) = filter (\<lambda>p. fst p \<notin> set (k # ks)) xs"
  by (induction xs) auto

lemma impl_of_delete_all:
  "DAList.impl_of (foldl (\<lambda>d call_name. DAList.delete call_name d) d ks)
     = filter (\<lambda>p. fst p \<notin> set ks) (DAList.impl_of d)"
proof (induction ks arbitrary: d)
  case Nil
  then show ?case by simp
next
  case (Cons k ks)
  show ?case
    by (simp only: foldl_Cons Cons.IH DAList.delete.rep_eq filter_delete_all)
qed

lemma pruned_char_aux:
  assumes "distinct (map fst al)" and "R \<inter> fst ` set al = {}"
  shows "filter (\<lambda>p. fst p \<notin> R \<union> set (map fst (filter (\<lambda>(k, l). keep_other f l = []) al)))
           (map (\<lambda>(k, l). (k, if keep_other f l = [] then l else keep_other f l)) al)
         = pruned f al"
  using assms
proof (induction al arbitrary: R)
  case Nil
  then show ?case by (simp add: pruned_def)
next
  case (Cons p al)
  obtain k l where p: "p = (k, l)" by (cases p)
  have d: "distinct (map fst al)" and kn: "k \<notin> fst ` set al" and kR: "k \<notin> R"
    and Ral: "R \<inter> fst ` set al = {}"
    using Cons.prems p by auto
  show ?case
  proof (cases "keep_other f l = []")
    case True
    have "(insert k R) \<inter> fst ` set al = {}" using kn Ral by auto
    from Cons.IH[OF d this] True p show ?thesis
      by (simp add: pruned_def)
  next
    case False
    have "k \<notin> set (map fst (filter (\<lambda>(k, l). keep_other f l = []) al))"
      using kn by auto
    with Cons.IH[OF d Ral] False p kR show ?thesis
      by (simp add: pruned_def)
  qed
qed

lemma calls_after_removal:
  "DAList.impl_of (foldl (\<lambda>d call_name. DAList.delete call_name d)
       (fst (filter_calls f (DAList.impl_of d) d []))
       (snd (filter_calls f (DAList.impl_of d) d [])))
     = pruned f (DAList.impl_of d)"
proof -
  have "DAList.impl_of d = [] @ DAList.impl_of d" by simp
  from filter_calls_char[OF this, of f "[]"]
    pruned_char_aux[of "DAList.impl_of d" "{}" f]
  show ?thesis
    by (simp add: impl_of_delete_all)
qed

lemma remove_file_data_char:
  "\<exists>c'. remove_file_data c f = Inr c'
     \<and> c' = (rebuild_indices (c\<lparr>methods := filter (\<lambda>mi. mi_filename mi \<noteq> f) (methods c)\<rparr>))
             \<lparr>module_vars := DAList.delete f (module_vars c),
              calls := calls c',
              modules := filter (\<lambda>mo. mo_filename mo \<noteq> f) (modules c)\<rparr>
     \<and> DAList.impl_of (calls c') = pruned f (DAList.impl_of (calls c))"
  by (simp add: remove_file_data_def pop_all_indices_to_remove Let_def calls_after_removal)

subsection \<open>Removing a file twice\<close>

lemma keep_other_idem [simp]: "keep_other f (keep_other f l) = keep_other f l"
  by (simp add: keep_other_def)

lemma pruned_idem: "pruned f (pruned f al) = pruned f al"
  by (induction al) (auto simp: pruned_def)

lemma remove_file_data_twice:
  assumes "remove_file_data c f = Inr c1"
  shows "remove_file_data c1 f = Inr c1"
proof -
  let ?keep = "filter (\<lambda>mi. mi_filename mi \<noteq> f)"
  from remove_file_data_char[of c f] assms
  have c1: "c1 = (rebuild_indices (c\<lparr>methods := ?keep (methods c)\<rparr>))
             \<lparr>module_vars := DAList.delete f (module_vars c),
              calls := calls c1,
              modules := filter (\<lambda>mo. mo_filename mo \<noteq> f) (modules c)\<rparr>"
    and k1: "DAList.impl_of (calls c1) = pruned f (DAList.impl_of (calls c))"
    by auto
  have m1: "methods c1 = ?keep (methods c)" by (subst c1) simp
  have mv1: "module_vars c1 = DAList.delete f (module_vars c)" by (subst c1) simp
  have mo1: "modules c1 = filter (\<lambda>mo. mo_filename mo \<noteq> f) (modules c)" by (subst c1) simp
  have ex1: "exact_indexes c1"
    by (subst c1) (intro exact_upd exact_rebuild)
  obtain c2 where r2: "remove_file_data c1 f = Inr c2"
    and c2: "c2 = (rebuild_indices (c1\<lparr>methods := ?keep (methods c1)\<rparr>))
             \<lparr>module_vars := DAList.delete f (module_vars c1),
              calls := calls c2,
              modules := filter (\<lambda>mo. mo_filename mo \<noteq> f) (modules c1)\<rparr>"
    and k2: "DAList.impl_of (calls c2) = pruned f (DAList.impl_of (calls c1))"
    using remove_file_data_char[of c1 f] by auto
  have "c1\<lparr>methods := ?keep (methods c1)\<rparr> = c1" by (simp add: m1)
  then have rb: "rebuild_indices (c1\<lparr>methods := ?keep (methods c1)\<rparr>) = c1"
    using ex1 by (simp add: exact_indexes_def)
  have mv: "DAList.delete f (module_vars c1) = module_vars c1"
    by (simp add: mv1 DAList.alist_eq_iff DAList.delete.rep_eq AList.delete_idem)
  have cs: "calls c2 = calls c1"
    by (simp add: DAList.alist_eq_iff k2 k1 pruned_idem)
  have mo: "filter (\<lambda>mo. mo_filename mo \<noteq> f) (modules c1) = modules c1"
    by (simp add: mo1)
  have "c2 = c1" by (subst c2) (simp add: rb mv cs mo)
  with r2 show ?thesis by simp
qed

text \<open>
  Claim C8. For every cache state and every file \<open>f\<close>, \<open>remove_file_data(f)\<close> returns
  without an exception, and calling it again on the state it leaves returns without an
  exception and leaves that same state: the second call is a no-op.
\<close>

theorem remove_file_data_idempotent:
  "\<exists>c1. remove_file_data c f = Inr c1 \<and> remove_file_data c1 f = Inr c1"
  using remove_file_data_char[of c f] remove_file_data_twice[of c f] by blast

subsection \<open>Batched insertion\<close>

lemma add_methods_batch_foldl:
  "add_methods_batch c xs = add_methods_one_by_one c xs"
  unfolding add_methods_one_by_one_def
  by (induction c xs rule: add_methods_batch.induct) simp_all

lemma add_module_vars_batch_foldl:
  "add_module_vars_batch c xs = add_module_vars_one_by_one c xs"
  unfolding add_module_vars_one_by_one_def
  by (induction c xs rule: add_module_vars_batch.induct) simp_all

lemma add_calls_batch_foldl:
  "add_calls_batch c xs = add_calls_one_by_one c xs"
  unfolding add_calls_one_by_one_def
  by (induction c xs rule: add_calls_batch.induct) simp_all

lemma find_methods_empty_query:
  "find_methods rc c (Some DAList.empty) = Inr (methods c)"
  by (simp add: find_methods_def DAList.empty.rep_eq)

text \<open>
  Claim C7. For every list of (method, filename, module) triples and every cache state,
  \<open>add_methods_batch\<close> leaves the cache in the state that \<open>add_method\<close>, called on the
  triples one by one in the same order, leaves it in; \<open>find_methods({})\<close> then returns
  the method list of that state in both cases, so the two results hold the same entries;
  and the batch variants for module variables and for calls equal their single operations
  called one by one.
\<close>

theorem batch_equals_one_by_one:
  "add_methods_batch c methods_data = add_methods_one_by_one c methods_data
   \<and> find_methods rc (add_methods_batch c methods_data) (Some DAList.empty)
       = Inr (methods (add_methods_batch c methods_data))
   \<and> find_methods rc (add_methods_one_by_one c methods_data) (Some DAList.empty)
       = Inr (methods (add_methods_one_by_one c methods_data))
   \<and> set (methods (add_methods_batch c methods_data))
       = set (methods (add_methods_one_by_one c methods_data))
   \<and> add_module_vars_batch c vars_data = add_module_vars_one_by_one c vars_data
   \<and> add_calls_batch c calls_data = add_calls_one_by_one c calls_data"
  by (simp add: add_methods_batch_foldl add_module_vars_batch_foldl add_calls_batch_foldl
      find_methods_empty_query)

subsection \<open>Queries with unknown keys\<close>

lemma find_methods_unknown_keys:
  assumes "DAList.impl_of q \<noteq> []"
    and "DAList.lookup q k_name = None" "DAList.lookup q k_module = None"
    and "DAList.lookup q k_is_export = None" "DAList.lookup q k_isExport = None"
    and "DAList.lookup q k_context = None" "DAList.lookup q k_isproc = None"
  shows "find_methods rc c (Some q) = Inr (methods c)"
proof -
  have "map ((!) (methods c)) [0..<length (methods c)] = methods c"
    by (rule map_nth)
  then show ?thesis using assms
    by (simp add: find_methods_def export_filter_def scan_candidates_def keep_entry_def)
qed

text \<open>
  Claim C9. For every cache state, \<open>find_methods\<close> on a non-empty query whose keys are
  all other than \<open>name\<close>, \<open>module\<close>, \<open>is_export\<close>, \<open>isExport\<close>, \<open>context\<close> and
  \<open>isproc\<close> raises no error and returns every stored entry, once each: the result of
  a query with no filter.
\<close>

theorem find_methods_unknown_keys_ignored:
  assumes "DAList.impl_of q \<noteq> []"
    and "DAList.lookup q k_name = None" "DAList.lookup q k_module = None"
    and "DAList.lookup q k_is_export = None" "DAList.lookup q k_isExport = None"
    and "DAList.lookup q k_context = None" "DAList.lookup q k_isproc = None"
  shows "\<exists>rs. find_methods rc c (Some q) = Inr rs \<and> mset rs = mset (methods c)
              \<and> find_methods rc c None = Inr (methods c)"
  using find_methods_unknown_keys[OF assms, of rc c] by (simp add: find_methods_def)

text \<open>
  The query \<open>{'nmae': 'x'}\<close> (a misspelt \<open>name\<close>) on a cache holding one exported
  procedure.
\<close>

theorem find_methods_unknown_keys_ignored_witness:
  "DAList.impl_of (DAList.update [110, 109, 97, 101] (QStr [120]) DAList.empty) \<noteq> []
   \<and> DAList.lookup (DAList.update [110, 109, 97, 101] (QStr [120]) DAList.empty) k_name = None
   \<and> DAList.lookup (DAList.update [110, 109, 97, 101] (QStr [120]) DAList.empty) k_module = None
   \<and> DAList.lookup (DAList.update [110, 109, 97, 101] (QStr [120]) DAList.empty) k_is_export = None
   \<and> DAList.lookup (DAList.update [110, 109, 97, 101] (QStr [120]) DAList.empty) k_isExport = None
   \<and> DAList.lookup (DAList.update [110, 109, 97, 101] (QStr [120]) DAList.empty) k_context = None
   \<and> DAList.lookup (DAList.update [110, 109, 97, 101] (QStr [120]) DAList.empty) k_isproc = None
   \<and> (\<exists>rs. find_methods (\<lambda>p. None)
              (add_method BSLCache_init
                 \<lparr>m_name = [65], m_line = 0, m_endline = 1, m_isproc = True, m_is_export = True,
                  m_params = [], m_description = [], m_context = [], m_calls_position = []\<rparr>
                 [102] [])
              (Some (DAList.update [110, 109, 97, 101] (QStr [120]) DAList.empty)) = Inr rs
            \<and> mset rs = mset (methods (add_method BSLCache_init
                 \<lparr>m_name = [65], m_line = 0, m_endline = 1, m_isproc = True, m_is_export = True,
                  m_params = [], m_description = [], m_context = [], m_calls_position = []\<rparr>
                 [102] []))
            \<and> find_methods (\<lambda>p. None)
              (add_method BSLCache_init
                 \<lparr>m_name = [65], m_line = 0, m_endline = 1, m_isproc = True, m_is_export = True,
                  m_params = [], m_description = [], m_context = [], m_calls_position = []\<rparr>
                 [102] []) None
              = Inr (methods (add_method BSLCache_init
                 \<lparr>m_name = [65], m_line = 0, m_endline = 1, m_isproc = True, m_is_export = True,
                  m_params = [], m_description = [], m_context = [], m_calls_position = []\<rparr>
                 [102] [])))"
proof -
  let ?q = "DAList.update [110, 109, 97, 101] (QStr [120]) DAList.empty"
  have h: "DAList.impl_of ?q \<noteq> []"
    "DAList.lookup ?q k_name = None" "DAList.lookup ?q k_module = None"
    "DAList.lookup ?q k_is_export = None" "DAList.lookup ?q k_isExport = None"
    "DAList.lookup ?q k_context = None" "DAList.lookup ?q k_isproc = None"
    by (simp_all add: DAList.update.rep_eq DAList.empty.rep_eq k_name_def k_module_def
        k_is_export_def k_isExport_def k_context_def k_isproc_def)
  show ?thesis
    using h find_methods_unknown_keys_ignored[OF h]
    by blast
qed

subsection \<open>States reached by the operations\<close>

lemma set_update_subset:
  "(k', l) \<in> set (AList.update k v al) \<Longrightarrow> (k', l) = (k, v) \<or> (k', l) \<in> set al"
  by (induction al) (auto split: if_splits)

lemma setdefault_append_nonempty:
  assumes "list_all (\<lambda>(k, l). l \<noteq> []) (DAList.impl_of d)"
  shows "list_all (\<lambda>(k, l). l \<noteq> []) (DAList.impl_of (setdefault_append k v d))"
proof -
  have "\<And>k' l. (k', l) \<in> set (DAList.impl_of (setdefault_append k v d)) \<Longrightarrow> l \<noteq> []"
  proof -
    fix k' l assume a: "(k', l) \<in> set (DAList.impl_of (setdefault_append k v d))"
    show "l \<noteq> []"
    proof (cases "DAList.lookup d k = None")
      case True
      with a have "(k', l) \<in> set (AList.update k [v] (AList.update k [] (DAList.impl_of d)))"
        by (simp add: setdefault_append_def DAList.update.rep_eq)
      then have "(k', l) = (k, [v]) \<or> (k', l) \<in> set (DAList.impl_of d)"
        by (auto dest!: set_update_subset)
      then show ?thesis using assms by (auto simp: list_all_iff)
    next
      case False
      then obtain l0 where "DAList.lookup d k = Some l0" by auto
      with a have "(k', l) \<in> set (AList.update k (l0 @ [v]) (DAList.impl_of d))"
        by (simp add: setdefault_append_def DAList.update.rep_eq)
      then have "(k', l) = (k, l0 @ [v]) \<or> (k', l) \<in> set (DAList.impl_of d)"
        by (auto dest!: set_update_subset)
      then show ?thesis using assms by (auto simp: list_all_iff)
    qed
  qed
  then show ?thesis by (auto simp: list_all_iff)
qed

lemma inv_add_method: "cache_inv c \<Longrightarrow> cache_inv (add_method c m f md)"
  by (simp add: cache_inv_def exact_add_method) (simp add: add_method_def no_empty_bucket_def Let_def)

lemma inv_add_module_var: "cache_inv c \<Longrightarrow> cache_inv (add_module_var c v f)"
  by (simp add: cache_inv_def add_module_var_def exact_upd no_empty_bucket_def)

lemma inv_add_call: "cache_inv c \<Longrightarrow> cache_inv (add_call c cp f mn md)"
  by (simp add: cache_inv_def add_call_def exact_upd no_empty_bucket_def Let_def
      setdefault_append_nonempty)

lemma inv_add_module: "cache_inv c \<Longrightarrow> cache_inv (add_module c mo)"
  by (simp add: cache_inv_def add_module_def exact_upd no_empty_bucket_def)

lemma inv_clear: "cache_inv (clear c)"
  by (simp add: cache_inv_def exact_clear) (simp add: clear_def no_empty_bucket_def DAList.empty.rep_eq)

lemma inv_init: "cache_inv BSLCache_init"
  by (simp add: cache_inv_def exact_init) (simp add: BSLCache_init_def no_empty_bucket_def DAList.empty.rep_eq)

lemma inv_add_methods_batch: "cache_inv c \<Longrightarrow> cache_inv (add_methods_batch c xs)"
  by (induction c xs rule: add_methods_batch.induct) (simp_all add: inv_add_method)

lemma inv_add_module_vars_batch: "cache_inv c \<Longrightarrow> cache_inv (add_module_vars_batch c xs)"
  by (induction c xs rule: add_module_vars_batch.induct) (simp_all add: inv_add_module_var)

lemma inv_add_calls_batch: "cache_inv c \<Longrightarrow> cache_inv (add_calls_batch c xs)"
  by (induction c xs rule: add_calls_batch.induct) (simp_all add: inv_add_call)

lemma pruned_nonempty: "list_all (\<lambda>(k, l). l \<noteq> []) (pruned f al)"
  by (induction al) (auto simp: pruned_def)

lemma inv_remove_file_data: "\<exists>c'. remove_file_data c f = Inr c' \<and> cache_inv c'"
proof -
  from remove_file_data_char[of c f] obtain c' where r: "remove_file_data c f = Inr c'"
    and c': "c' = (rebuild_indices (c\<lparr>methods := filter (\<lambda>mi. mi_filename mi \<noteq> f) (methods c)\<rparr>))
             \<lparr>module_vars := DAList.delete f (module_vars c),
              calls := calls c',
              modules := filter (\<lambda>mo. mo_filename mo \<noteq> f) (modules c)\<rparr>"
    and k: "DAList.impl_of (calls c') = pruned f (DAList.impl_of (calls c))"
    by auto
  have "exact_indexes c'" by (subst c') (intro exact_upd exact_rebuild)
  moreover have "no_empty_bucket c'" by (simp add: no_empty_bucket_def k pruned_nonempty)
  ultimately show ?thesis using r by (simp add: cache_inv_def)
qed

lemma inv_apply_op: "cache_inv c \<Longrightarrow> \<exists>c'. apply_op c x = Inr c' \<and> cache_inv c'"
  by (cases x)
    (simp_all add: inv_add_method inv_add_module_var inv_add_call inv_add_module inv_clear
      inv_add_methods_batch inv_add_module_vars_batch inv_add_calls_batch inv_remove_file_data)

lemma inv_run_ops: "cache_inv c \<Longrightarrow> \<exists>c'. run_ops c ops = Inr c' \<and> cache_inv c'"
proof (induction ops arbitrary: c)
  case Nil
  then show ?case by simp
next
  case (Cons x ops)
  from inv_apply_op[OF Cons.prems, of x] obtain c1 where "apply_op c x = Inr c1" "cache_inv c1"
    by auto
  with Cons.IH[of c1] show ?case by simp
qed

text \<open>
  Claim C3. After any sequence of mutating operations on a new cache (\<open>add_method\<close>,
  \<open>add_module_var\<close>, \<open>add_call\<close>, their batch variants, \<open>add_module\<close>,
  \<open>remove_file_data\<close>, \<open>clear\<close>) no exception has been raised and the indexes are
  consistent with the method list: the name index maps each lower-cased name to exactly
  the positions holding an entry of that name, the module index maps each lower-cased
  non-empty module to exactly the positions of the entries of that module, and the export
  index is exactly the positions of the entries whose method is exported.
\<close>

theorem indexes_consistent_after_ops:
  "\<exists>c. run_ops BSLCache_init ops = Inr c \<and> indexes_consistent c"
  using inv_run_ops[OF inv_init, of ops] by (auto simp: cache_inv_def exact_consistent)

subsection \<open>What removal leaves\<close>

lemma find_methods_subset:
  "find_methods rc c q = Inr rs \<Longrightarrow> set rs \<subseteq> set (methods c)"
  by (auto simp: find_methods_def scan_candidates_def Let_def
      split: option.splits sum.splits if_splits)

lemma map_of_pruned:
  "distinct (map fst al) \<Longrightarrow>
   map_of (pruned f al) k =
     (case map_of al k of None \<Rightarrow> None
      | Some l \<Rightarrow> if keep_other f l = [] then None else Some (keep_other f l))"
proof (induction al)
  case Nil
  then show ?case by (simp add: pruned_def)
next
  case (Cons p al)
  obtain k' l' where p: "p = (k', l')" by (cases p)
  have ih: "map_of (pruned f al) k =
     (case map_of al k of None \<Rightarrow> None
      | Some l \<Rightarrow> if keep_other f l = [] then None else Some (keep_other f l))"
    using Cons by simp
  have notin: "k' \<notin> fst ` set al" using Cons.prems p by auto
  have pr: "pruned f (p # al) = (if keep_other f l' = [] then pruned f al else (k', keep_other f l') # pruned f al)"
    by (simp add: pruned_def p)
  show ?case
  proof (cases "k = k'")
    case True
    have "map_of al k = None" using notin True by (simp add: map_of_eq_None_iff)
    then show ?thesis using ih True p pr by simp
  next
    case False
    then show ?thesis using ih p pr by simp
  qed
qed

lemma pruned_id:
  "list_all (\<lambda>(k, l). l \<noteq> [] \<and> list_all (\<lambda>ci. ci_filename ci \<noteq> f) l) al \<Longrightarrow> pruned f al = al"
proof (induction al)
  case Nil
  then show ?case by (simp add: pruned_def)
next
  case (Cons p al)
  obtain k l where p: "p = (k, l)" by (cases p)
  have "keep_other f l = l" using Cons.prems p
    by (simp add: keep_other_def list_all_iff)
  moreover have "l \<noteq> []" using Cons.prems p by simp
  moreover have "pruned f al = al" using Cons by simp
  ultimately show ?case using p by (simp add: pruned_def)
qed

lemma remove_absent_file:
  assumes inv: "cache_inv c" and ab: "file_absent c f"
  shows "remove_file_data c f = Inr c"
proof -
  from remove_file_data_char[of c f] obtain c' where r: "remove_file_data c f = Inr c'"
    and c': "c' = (rebuild_indices (c\<lparr>methods := filter (\<lambda>mi. mi_filename mi \<noteq> f) (methods c)\<rparr>))
             \<lparr>module_vars := DAList.delete f (module_vars c),
              calls := calls c',
              modules := filter (\<lambda>mo. mo_filename mo \<noteq> f) (modules c)\<rparr>"
    and k: "DAList.impl_of (calls c') = pruned f (DAList.impl_of (calls c))"
    by auto
  have m: "filter (\<lambda>mi. mi_filename mi \<noteq> f) (methods c) = methods c"
    using ab by (simp add: file_absent_def list_all_iff)
  have rb: "rebuild_indices c = c"
    using inv by (simp add: cache_inv_def exact_indexes_def)
  have "f \<notin> fst ` set (DAList.impl_of (module_vars c))"
    using ab by (simp add: file_absent_def DAList.lookup.rep_eq map_of_eq_None_iff)
  then have mv: "DAList.delete f (module_vars c) = module_vars c"
    by (simp add: DAList.alist_eq_iff DAList.delete.rep_eq)
  have "list_all (\<lambda>(k, l). l \<noteq> [] \<and> list_all (\<lambda>ci. ci_filename ci \<noteq> f) l) (DAList.impl_of (calls c))"
    using inv ab by (auto simp: cache_inv_def no_empty_bucket_def file_absent_def list_all_iff)
  then have cs: "calls c' = calls c"
    by (simp add: DAList.alist_eq_iff k pruned_id)
  have mo: "filter (\<lambda>mo. mo_filename mo \<noteq> f) (modules c) = modules c"
    using ab by (simp add: file_absent_def list_all_iff)
  have "c' = c" by (subst c') (simp add: m rb mv cs mo)
  with r show ?thesis by simp
qed

lemma length_filter_split:
  "length (filter (\<lambda>x. \<not> P x) xs) + length (filter P xs) = length xs"
  by (induction xs) auto

text \<open>
  Claim C2. For every cache state and every file \<open>f\<close>, \<open>remove_file_data(f)\<close> raises
  no exception and leaves a state in which: the method list is the old one without the
  entries whose filename is \<open>f\<close>, the other entries unchanged and in their order, and
  the indexes are consistent with it; \<open>f\<close> has no module-variable collection and every
  other file has its old one; every callee bucket is the old one without the records of
  \<open>f\<close>, and a bucket is present exactly when a record is left in it; the module records
  are the old ones without those of \<open>f\<close>; \<open>get_stats()['methods']\<close> has decreased by
  exactly the number of entries \<open>f\<close> owned; no result of \<open>find_methods\<close> (under any
  query) and no result of \<open>find_calls\<close> holds an entry of \<open>f\<close>; and when the state
  was reached by the operations of the cache and \<open>f\<close> owns nothing in it, the state is
  left as it was.
\<close>

theorem remove_file_data_removes_file:
  "\<exists>c'. remove_file_data c f = Inr c'
     \<and> methods c' = filter (\<lambda>mi. mi_filename mi \<noteq> f) (methods c)
     \<and> indexes_consistent c'
     \<and> DAList.lookup (module_vars c') = (DAList.lookup (module_vars c))(f := None)
     \<and> (\<forall>k. find_calls c' k = filter (\<lambda>ci. ci_filename ci \<noteq> f) (find_calls c k))
     \<and> (\<forall>k. (DAList.lookup (calls c') k = None)
              = (filter (\<lambda>ci. ci_filename ci \<noteq> f) (find_calls c k) = []))
     \<and> modules c' = filter (\<lambda>mo. mo_filename mo \<noteq> f) (modules c)
     \<and> st_methods (get_stats c') + length (filter (\<lambda>mi. mi_filename mi = f) (methods c))
         = st_methods (get_stats c)
     \<and> (\<forall>rc q rs. find_methods rc c' q = Inr rs \<longrightarrow> list_all (\<lambda>mi. mi_filename mi \<noteq> f) rs)
     \<and> (\<forall>k. list_all (\<lambda>ci. ci_filename ci \<noteq> f) (find_calls c' k))
     \<and> (run_ops BSLCache_init ops = Inr c \<and> file_absent c f \<longrightarrow> c' = c)"
proof -
  from remove_file_data_char[of c f] obtain c' where r: "remove_file_data c f = Inr c'"
    and c': "c' = (rebuild_indices (c\<lparr>methods := filter (\<lambda>mi. mi_filename mi \<noteq> f) (methods c)\<rparr>))
             \<lparr>module_vars := DAList.delete f (module_vars c),
              calls := calls c',
              modules := filter (\<lambda>mo. mo_filename mo \<noteq> f) (modules c)\<rparr>"
    and k: "DAList.impl_of (calls c') = pruned f (DAList.impl_of (calls c))"
    by auto
  have m: "methods c' = filter (\<lambda>mi. mi_filename mi \<noteq> f) (methods c)" by (subst c') simp
  have ic: "indexes_consistent c'"
    using inv_remove_file_data[of c f] r by (auto simp: cache_inv_def exact_consistent)
  have mv: "DAList.lookup (module_vars c') = (DAList.lookup (module_vars c))(f := None)"
    by (subst c') simp
  have lk: "\<And>k. DAList.lookup (calls c') k =
      (case DAList.lookup (calls c) k of None \<Rightarrow> None
       | Some l \<Rightarrow> if keep_other f l = [] then None else Some (keep_other f l))"
    by (simp add: DAList.lookup.rep_eq k map_of_pruned)
  have fc: "\<forall>k. find_calls c' k = filter (\<lambda>ci. ci_filename ci \<noteq> f) (find_calls c k)"
    by (auto simp: find_calls_def lk keep_other_def split: option.splits)
  have bk: "\<forall>k. (DAList.lookup (calls c') k = None)
              = (filter (\<lambda>ci. ci_filename ci \<noteq> f) (find_calls c k) = [])"
    by (auto simp: find_calls_def lk keep_other_def split: option.splits)
  have mo: "modules c' = filter (\<lambda>mo. mo_filename mo \<noteq> f) (modules c)" by (subst c') simp
  have st: "st_methods (get_stats c') + length (filter (\<lambda>mi. mi_filename mi = f) (methods c))
         = st_methods (get_stats c)"
    using length_filter_split[of "\<lambda>mi. mi_filename mi = f" "methods c"]
    by (simp add: get_stats_def m)
  have fm: "\<forall>rc q rs. find_methods rc c' q = Inr rs \<longrightarrow> list_all (\<lambda>mi. mi_filename mi \<noteq> f) rs"
  proof (intro allI impI)
    fix rc q rs assume "find_methods rc c' q = Inr rs"
    then have "set rs \<subseteq> set (methods c')" by (rule find_methods_subset)
    then show "list_all (\<lambda>mi. mi_filename mi \<noteq> f) rs" by (auto simp: m list_all_iff)
  qed
  have fk: "\<forall>k. list_all (\<lambda>ci. ci_filename ci \<noteq> f) (find_calls c' k)"
    using fc by (simp add: list_all_iff)
  have noop: "run_ops BSLCache_init ops = Inr c \<and> file_absent c f \<longrightarrow> c' = c"
  proof
    assume a: "run_ops BSLCache_init ops = Inr c \<and> file_absent c f"
    with inv_run_ops[OF inv_init, of ops] have "cache_inv c" by auto
    from remove_absent_file[OF this] a r show "c' = c" by simp
  qed
  from r m ic mv fc bk mo st fm fk noop show ?thesis by blast
qed

text \<open>
  A cache holding one procedure of file \<open>a\<close> and one call from it. File \<open>z\<close> is
  unknown to it, and removing \<open>z\<close> leaves the state as it was; removing \<open>a\<close>
  leaves no method, a method count of 0, no result of \<open>find_methods\<close> and no bucket
  for the callee.
\<close>

theorem remove_file_data_removes_file_witness:
  "run_ops BSLCache_init
     [AddMethod \<lparr>m_name = [65], m_line = 0, m_endline = 1, m_isproc = True, m_is_export = True,
                  m_params = [], m_description = [], m_context = [], m_calls_position = []\<rparr> [97] [],
      AddCall \<lparr>cp_call = [70], cp_line = 0, cp_character = 2\<rparr> [97] [65] []]
     = Inr (add_call (add_method BSLCache_init
              \<lparr>m_name = [65], m_line = 0, m_endline = 1, m_isproc = True, m_is_export = True,
                m_params = [], m_description = [], m_context = [], m_calls_position = []\<rparr> [97] [])
              \<lparr>cp_call = [70], cp_line = 0, cp_character = 2\<rparr> [97] [65] [])
   \<and> file_absent (add_call (add_method BSLCache_init
              \<lparr>m_name = [65], m_line = 0, m_endline = 1, m_isproc = True, m_is_export = True,
                m_params = [], m_description = [], m_context = [], m_calls_position = []\<rparr> [97] [])
              \<lparr>cp_call = [70], cp_line = 0, cp_character = 2\<rparr> [97] [65] []) [122]
   \<and> remove_file_data (add_call (add_method BSLCache_init
              \<lparr>m_name = [65], m_line = 0, m_endline = 1, m_isproc = True, m_is_export = True,
                m_params = [], m_description = [], m_context = [], m_calls_position = []\<rparr> [97] [])
              \<lparr>cp_call = [70], cp_line = 0, cp_character = 2\<rparr> [97] [65] []) [122]
     = Inr (add_call (add_method BSLCache_init
              \<lparr>m_name = [65], m_line = 0, m_endline = 1, m_isproc = True, m_is_export = True,
                m_params = [], m_description = [], m_context = [], m_calls_position = []\<rparr> [97] [])
              \<lparr>cp_call = [70], cp_line = 0, cp_character = 2\<rparr> [97] [65] [])
   \<and> (\<exists>c'. remove_file_data (add_call (add_method BSLCache_init
              \<lparr>m_name = [65], m_line = 0, m_endline = 1, m_isproc = True, m_is_export = True,
                m_params = [], m_description = [], m_context = [], m_calls_position = []\<rparr> [97] [])
              \<lparr>cp_call = [70], cp_line = 0, cp_character = 2\<rparr> [97] [65] []) [97] = Inr c'
          \<and> methods c' = [] \<and> st_methods (get_stats c') = 0
          \<and> find_methods (\<lambda>p. None) c' None = Inr []
          \<and> find_calls c' [70] = [] \<and> DAList.lookup (calls c') [70] = None)"
proof -
  let ?m = "\<lparr>m_name = [65], m_line = 0, m_endline = 1, m_isproc = True, m_is_export = True,
                m_params = [], m_description = [], m_context = [], m_calls_position = []\<rparr>"
  let ?cp = "\<lparr>cp_call = [70], cp_line = 0, cp_character = 2\<rparr>"
  let ?c = "add_call (add_method BSLCache_init ?m [97] []) ?cp [97] [65] []"
  let ?ops = "[AddMethod ?m [97] [], AddCall ?cp [97] [65] []]"
  have h1: "run_ops BSLCache_init ?ops = Inr ?c" by simp
  have h2: "file_absent ?c [122]"
    by (simp add: file_absent_def add_call_def add_method_def BSLCache_init_def
        setdefault_append_def Let_def DAList.update.rep_eq DAList.empty.rep_eq
        DAList.lookup.rep_eq)
  from remove_file_data_removes_file[of ?c "[122]" ?ops] h1 h2
  have h3: "remove_file_data ?c [122] = Inr ?c" by auto
  from remove_file_data_removes_file[of ?c "[97]" ?ops]
  obtain c' where r: "remove_file_data ?c [97] = Inr c'"
    and m: "methods c' = filter (\<lambda>mi. mi_filename mi \<noteq> [97]) (methods ?c)"
    and fc: "find_calls c' [70] = filter (\<lambda>ci. ci_filename ci \<noteq> [97]) (find_calls ?c [70])"
    and bk: "(DAList.lookup (calls c') [70] = None)
              = (filter (\<lambda>ci. ci_filename ci \<noteq> [97]) (find_calls ?c [70]) = [])"
    by blast
  have m0: "methods c' = []"
    by (simp add: m add_call_def add_method_def BSLCache_init_def Let_def)
  have c0: "filter (\<lambda>ci. ci_filename ci \<noteq> [97]) (find_calls ?c [70]) = []"
    by (simp add: find_calls_def add_call_def add_method_def BSLCache_init_def
        setdefault_append_def Let_def)
  have "find_methods (\<lambda>p. None) c' None = Inr []"
    by (simp add: find_methods_def m0)
  moreover have "st_methods (get_stats c') = 0" by (simp add: get_stats_def m0)
  moreover have "find_calls c' [70] = []" by (simp only: fc c0)
  moreover have "DAList.lookup (calls c') [70] = None" by (simp only: bk c0)
  ultimately have "\<exists>c'. remove_file_data ?c [97] = Inr c'
          \<and> methods c' = [] \<and> st_methods (get_stats c') = 0
          \<and> find_methods (\<lambda>p. None) c' None = Inr []
          \<and> find_calls c' [70] = [] \<and> DAList.lookup (calls c') [70] = None"
    using r m0 by blast
  with h1 h2 h3 show ?thesis by blast
qed

section \<open>Properties of the module name\<close>

lemma split_on_no_sep: "sep \<notin> set s \<Longrightarrow> split_on sep s = [s]"
  by (induction s) auto

lemma split_on_append:
  "sep \<notin> set s \<Longrightarrow> split_on sep (s @ sep # rest) = s # split_on sep rest"
  by (induction s) auto

lemma replace_char_absent: "a \<notin> set s \<Longrightarrow> replace_char a b s = s"
  by (induction s) (auto simp: replace_char_def)

lemma replace_char_append: "replace_char a b (s @ t) = replace_char a b s @ replace_char a b t"
  by (simp add: replace_char_def)

lemma replace_char_Cons:
  "replace_char a b (c # s) = (if c = a then b else c) # replace_char a b s"
  by (simp add: replace_char_def)

text \<open>
  After the backslashes have become slashes, splitting at the slashes gives back the
  segments, whichever of the two separators joined them.
\<close>

lemma split_normalized_join:
  assumes "segs \<noteq> []" and "\<forall>s\<in>set segs. 47 \<notin> set s \<and> 92 \<notin> set s"
    and "length seps + 1 = length segs" and "\<forall>x\<in>set seps. x = 47 \<or> x = 92"
  shows "split_on 47 (replace_char 92 47 (join_segments segs seps)) = segs"
  using assms
proof (induction segs seps rule: join_segments.induct)
  case (1 seps)
  then show ?case by simp
next
  case (2 s seps)
  then show ?case by (simp add: replace_char_absent split_on_no_sep)
next
  case (3 s t ss)
  then show ?case by simp
next
  case (4 s t ss sep seps)
  have s: "47 \<notin> set s" "92 \<notin> set s" using "4.prems" by auto
  have sep: "sep = 47 \<or> sep = 92" using "4.prems" by auto
  have ih: "split_on 47 (replace_char 92 47 (join_segments (t # ss) seps)) = t # ss"
    using "4.IH" "4.prems" by auto
  have "replace_char 92 47 (join_segments (s # t # ss) (sep # seps))
      = s @ 47 # replace_char 92 47 (join_segments (t # ss) seps)"
    using s sep by (auto simp: replace_char_append replace_char_absent replace_char_Cons)
  then show ?case using s ih by (simp add: split_on_append)
qed

lemma get_module_for_path_segments:
  assumes "segs \<noteq> []" and "\<forall>s\<in>set segs. 47 \<notin> set s \<and> 92 \<notin> set s"
    and "length seps + 1 = length segs" and "\<forall>x\<in>set seps. x = 47 \<or> x = 92"
    and "fullpath = (if root_path \<noteq> [] \<and> (last root_path = 92 \<or> last root_path = 47)
                     then root_path @ join_segments segs seps
                     else root_path @ c # join_segments segs seps)"
  shows "get_module_for_path fullpath root_path = module_of_segments segs"
proof -
  have "(if root_path \<noteq> [] \<and> (last root_path = 92 \<or> last root_path = 47)
                      then drop (length root_path) fullpath
                      else drop (length root_path + 1) fullpath) = join_segments segs seps"
    using assms(5) by simp
  moreover have "split_on 47 (replace_char 92 47 (join_segments segs seps)) = segs"
    by (rule split_normalized_join[OF assms(1-4)])
  ultimately show ?thesis
    by (simp add: get_module_for_path_def module_of_segments_def Let_def)
qed

text \<open>
  Claim C6. For every file path under the project root, whichever of slash and backslash
  separates its segments (each separator either of the two; no segment contains one): with
  more than 3 segments below the root, the module identifier is the segment after the fourth
  from the end when that fourth-from-the-end segment names a common-modules container (its
  name starts with \<open>CommonModules\<close> or with the Russian name), and otherwise the container
  type, translated through the table where the table has it, a full stop and that following
  segment; with at most 3 segments it is the empty string. The root may or may not end
  with a separator; where it does not, one character \<open>c\<close> stands between the root and
  the first segment, as the code skips one.
\<close>

theorem module_for_path:
  assumes "segs \<noteq> []" and "\<forall>s\<in>set segs. 47 \<notin> set s \<and> 92 \<notin> set s"
    and "length seps + 1 = length segs" and "\<forall>x\<in>set seps. x = 47 \<or> x = 92"
    and "fullpath = (if root_path \<noteq> [] \<and> (last root_path = 92 \<or> last root_path = 47)
                     then root_path @ join_segments segs seps
                     else root_path @ c # join_segments segs seps)"
  shows "get_module_for_path fullpath root_path = module_of_segments segs
       \<and> (length segs \<le> 3 \<longrightarrow> get_module_for_path fullpath root_path = [])
       \<and> (length segs > 3 \<and> (startswith (segs ! (length segs - 4)) s_CommonModules
                               \<or> startswith (segs ! (length segs - 4)) s_ObshchieModuli)
            \<longrightarrow> get_module_for_path fullpath root_path = segs ! (length segs - 3))
       \<and> (length segs > 3 \<and> \<not> startswith (segs ! (length segs - 4)) s_CommonModules
                            \<and> \<not> startswith (segs ! (length segs - 4)) s_ObshchieModuli
            \<longrightarrow> get_module_for_path fullpath root_path =
                  (case map_of type_mapping (segs ! (length segs - 4)) of
                     Some t \<Rightarrow> t | None \<Rightarrow> segs ! (length segs - 4))
                  @ [46] @ segs ! (length segs - 3))"
  using get_module_for_path_segments[OF assms]
  by (simp add: module_of_segments_def Let_def)

text \<open>
  The scenarios of the specification, under the root \<open>/r\<close>: the segments
  \<open>CommonModules\<close>, a module name, \<open>Ext\<close>, \<open>Module.bsl\<close> give the module name;
  \<open>Documents\<close>, a document name, \<open>Ext\<close>, \<open>Module.bsl\<close> give the Russian word for
  documents, a full stop and the document name; three segments give the empty string.
  Then a path of Windows, the segments \<open>Catalogs\<close>, a one-letter name, \<open>Ext\<close>,
  \<open>ManagerModule.bsl\<close> joined by backslashes under a root on the drive \<open>C:\<close>, which
  gives the Russian word for catalogs, a full stop and the name; a path under a root that
  ends with a backslash, with both separators mixed and a container whose name only starts
  with the Russian name of the common modules; a container \<open>Reports\<close> that the table
  does not have, kept as it is; and the eight other container kinds of the table, each
  with the object \<open>X\<close>. The paths are written out, as lists of code points.
\<close>

theorem module_for_path_witness:
  "get_module_for_path
      [47, 114, 47, 67, 111, 109, 109, 111, 110, 77, 111, 100, 117, 108, 101, 115, 47,
      1048, 1084, 1103, 1052, 1086, 1076, 1091, 1083, 1103, 47, 69, 120, 116, 47, 77,
      111, 100, 117, 108, 101, 46, 98, 115, 108]
      [47, 114]
    = [1048, 1084, 1103, 1052, 1086, 1076, 1091, 1083, 1103]
  \<and> get_module_for_path
      [47, 114, 47, 68, 111, 99, 117, 109, 101, 110, 116, 115, 47, 1048, 1084, 1103,
      1044, 1086, 1082, 1091, 1084, 1077, 1085, 1090, 1072, 47, 69, 120, 116, 47, 77,
      111, 100, 117, 108, 101, 46, 98, 115, 108]
      [47, 114]
    = [1044, 1086, 1082, 1091, 1084, 1077, 1085, 1090, 1099, 46, 1048, 1084, 1103, 1044,
      1086, 1082, 1091, 1084, 1077, 1085, 1090, 1072]
  \<and> get_module_for_path
      [47, 114, 47, 1048, 1084, 1103, 1052, 1086, 1076, 1091, 1083, 1103, 47, 69, 120,
      116, 47, 77, 111, 100, 117, 108, 101, 46, 98, 115, 108]
      [47, 114]
    = []
  \<and> get_module_for_path
      [67, 58, 92, 112, 92, 67, 97, 116, 97, 108, 111, 103, 115, 92, 1058, 92, 69, 120,
      116, 92, 77, 97, 110, 97, 103, 101, 114, 77, 111, 100, 117, 108, 101, 46, 98, 115,
      108]
      [67, 58, 92, 112]
    = [1057, 1087, 1088, 1072, 1074, 1086, 1095, 1085, 1080, 1082, 1080, 46, 1058]
  \<and> get_module_for_path
      [67, 58, 92, 112, 92, 115, 114, 99, 92, 1054, 1073, 1097, 1080, 1077, 1052, 1086,
      1076, 1091, 1083, 1080, 88, 47, 1052, 92, 69, 120, 116, 47, 77, 111, 100, 117, 108,
      101, 46, 98, 115, 108]
      [67, 58, 92, 112, 92]
    = [1052]
  \<and> get_module_for_path
      [47, 114, 47, 82, 101, 112, 111, 114, 116, 115, 47, 1054, 47, 69, 120, 116, 47, 77,
      111, 100, 117, 108, 101, 46, 98, 115, 108]
      [47, 114]
    = [82, 101, 112, 111, 114, 116, 115, 46, 1054]
  \<and> get_module_for_path
      [47, 114, 47, 73, 110, 102, 111, 114, 109, 97, 116, 105, 111, 110, 82, 101, 103,
      105, 115, 116, 101, 114, 115, 47, 88, 47, 69, 120, 116, 47, 77, 111, 100, 117, 108,
      101, 46, 98, 115, 108]
      [47, 114]
    = [1056, 1077, 1075, 1080, 1089, 1090, 1088, 1099, 1057, 1074, 1077, 1076, 1077,
      1085, 1080, 1081, 46, 88]
  \<and> get_module_for_path
      [47, 114, 47, 65, 99, 99, 117, 109, 117, 108, 97, 116, 105, 111, 110, 82, 101, 103,
      105, 115, 116, 101, 114, 115, 47, 88, 47, 69, 120, 116, 47, 77, 111, 100, 117, 108,
      101, 46, 98, 115, 108]
      [47, 114]
    = [1056, 1077, 1075, 1080, 1089, 1090, 1088, 1099, 1053, 1072, 1082, 1086, 1087,
      1083, 1077, 1085, 1080, 1103, 46, 88]
  \<and> get_module_for_path
      [47, 114, 47, 69, 110, 117, 109, 115, 47, 88, 47, 69, 120, 116, 47, 77, 111, 100,
      117, 108, 101, 46, 98, 115, 108]
      [47, 114]
    = [1055, 1077, 1088, 1077, 1095, 1080, 1089, 1083, 1077, 1085, 1080, 1103, 46, 88]
  \<and> get_module_for_path
      [47, 114, 47, 67, 111, 110, 115, 116, 97, 110, 116, 115, 47, 88, 47, 69, 120, 116,
      47, 77, 111, 100, 117, 108, 101, 46, 98, 115, 108]
      [47, 114]
    = [1050, 1086, 1085, 1089, 1090, 1072, 1085, 1090, 1099, 46, 88]
  \<and> get_module_for_path
      [47, 114, 47, 67, 111, 109, 109, 111, 110, 67, 111, 109, 109, 97, 110, 100, 115,
      47, 88, 47, 69, 120, 116, 47, 77, 111, 100, 117, 108, 101, 46, 98, 115, 108]
      [47, 114]
    = [1054, 1073, 1097, 1080, 1077, 1050, 1086, 1084, 1072, 1085, 1076, 1099, 46, 88]
  \<and> get_module_for_path
      [47, 114, 47, 87, 101, 98, 83, 101, 114, 118, 105, 99, 101, 115, 47, 88, 47, 69,
      120, 116, 47, 77, 111, 100, 117, 108, 101, 46, 98, 115, 108]
      [47, 114]
    = [1042, 1077, 1073, 1057, 1077, 1088, 1074, 1080, 1089, 1099, 46, 88]
  \<and> get_module_for_path
      [47, 114, 47, 66, 117, 115, 105, 110, 101, 115, 115, 80, 114, 111, 99, 101, 115,
      115, 101, 115, 47, 88, 47, 69, 120, 116, 47, 77, 111, 100, 117, 108, 101, 46, 98,
      115, 108]
      [47, 114]
    = [1041, 1080, 1079, 1085, 1077, 1089, 1055, 1088, 1086, 1094, 1077, 1089, 1089,
      1099, 46, 88]
  \<and> get_module_for_path
      [47, 114, 47, 84, 97, 115, 107, 115, 47, 88, 47, 69, 120, 116, 47, 77, 111, 100,
      117, 108, 101, 46, 98, 115, 108]
      [47, 114]
    = [1047, 1072, 1076, 1072, 1095, 1080, 46, 88]"
proof -
  have c0: "get_module_for_path
      [47, 114, 47, 67, 111, 109, 109, 111, 110, 77, 111, 100, 117, 108, 101, 115, 47,
      1048, 1084, 1103, 1052, 1086, 1076, 1091, 1083, 1103, 47, 69, 120, 116, 47, 77,
      111, 100, 117, 108, 101, 46, 98, 115, 108]
      [47, 114]
    = [1048, 1084, 1103, 1052, 1086, 1076, 1091, 1083, 1103]"
    using module_for_path[of "[[67, 111, 109, 109, 111, 110, 77, 111, 100, 117, 108, 101, 115], [1048, 1084,
          1103, 1052, 1086, 1076, 1091, 1083, 1103], [69, 120, 116], [77, 111, 100, 117,
          108, 101, 46, 98, 115, 108]]"
        "[47, 47, 47]"
        "[47, 114, 47, 67, 111, 109, 109, 111, 110, 77, 111, 100, 117, 108, 101, 115, 47,
      1048, 1084, 1103, 1052, 1086, 1076, 1091, 1083, 1103, 47, 69, 120, 116, 47, 77,
      111, 100, 117, 108, 101, 46, 98, 115, 108]"
        "[47, 114]" 47]
    by (simp add: module_of_segments_def startswith_def s_CommonModules_def s_ObshchieModuli_def
        type_mapping_def)
  have c1: "get_module_for_path
      [47, 114, 47, 68, 111, 99, 117, 109, 101, 110, 116, 115, 47, 1048, 1084, 1103,
      1044, 1086, 1082, 1091, 1084, 1077, 1085, 1090, 1072, 47, 69, 120, 116, 47, 77,
      111, 100, 117, 108, 101, 46, 98, 115, 108]
      [47, 114]
    = [1044, 1086, 1082, 1091, 1084, 1077, 1085, 1090, 1099, 46, 1048, 1084, 1103, 1044,
      1086, 1082, 1091, 1084, 1077, 1085, 1090, 1072]"
    using module_for_path[of "[[68, 111, 99, 117, 109, 101, 110, 116, 115], [1048, 1084, 1103, 1044, 1086,
          1082, 1091, 1084, 1077, 1085, 1090, 1072], [69, 120, 116], [77, 111, 100, 117,
          108, 101, 46, 98, 115, 108]]"
        "[47, 47, 47]"
        "[47, 114, 47, 68, 111, 99, 117, 109, 101, 110, 116, 115, 47, 1048, 1084, 1103,
      1044, 1086, 1082, 1091, 1084, 1077, 1085, 1090, 1072, 47, 69, 120, 116, 47, 77,
      111, 100, 117, 108, 101, 46, 98, 115, 108]"
        "[47, 114]" 47]
    by (simp add: module_of_segments_def startswith_def s_CommonModules_def s_ObshchieModuli_def
        type_mapping_def)
  have c2: "get_module_for_path
      [47, 114, 47, 1048, 1084, 1103, 1052, 1086, 1076, 1091, 1083, 1103, 47, 69, 120,
      116, 47, 77, 111, 100, 117, 108, 101, 46, 98, 115, 108]
      [47, 114]
    = []"
    using module_for_path[of "[[1048, 1084, 1103, 1052, 1086, 1076, 1091, 1083, 1103], [69, 120, 116], [77,
          111, 100, 117, 108, 101, 46, 98, 115, 108]]"
        "[47, 47]"
        "[47, 114, 47, 1048, 1084, 1103, 1052, 1086, 1076, 1091, 1083, 1103, 47, 69, 120,
      116, 47, 77, 111, 100, 117, 108, 101, 46, 98, 115, 108]"
        "[47, 114]" 47]
    by (simp add: module_of_segments_def startswith_def s_CommonModules_def s_ObshchieModuli_def
        type_mapping_def)
  have c3: "get_module_for_path
      [67, 58, 92, 112, 92, 67, 97, 116, 97, 108, 111, 103, 115, 92, 1058, 92, 69, 120,
      116, 92, 77, 97, 110, 97, 103, 101, 114, 77, 111, 100, 117, 108, 101, 46, 98, 115,
      108]
      [67, 58, 92, 112]
    = [1057, 1087, 1088, 1072, 1074, 1086, 1095, 1085, 1080, 1082, 1080, 46, 1058]"
    using module_for_path[of "[[67, 97, 116, 97, 108, 111, 103, 115], [1058], [69, 120, 116], [77, 97, 110,
          97, 103, 101, 114, 77, 111, 100, 117, 108, 101, 46, 98, 115, 108]]"
        "[92, 92, 92]"
        "[67, 58, 92, 112, 92, 67, 97, 116, 97, 108, 111, 103, 115, 92, 1058, 92, 69, 120,
      116, 92, 77, 97, 110, 97, 103, 101, 114, 77, 111, 100, 117, 108, 101, 46, 98, 115,
      108]"
        "[67, 58, 92, 112]" 92]
    by (simp add: module_of_segments_def startswith_def s_CommonModules_def s_ObshchieModuli_def
        type_mapping_def)
  have c4: "get_module_for_path
      [67, 58, 92, 112, 92, 115, 114, 99, 92, 1054, 1073, 1097, 1080, 1077, 1052, 1086,
      1076, 1091, 1083, 1080, 88, 47, 1052, 92, 69, 120, 116, 47, 77, 111, 100, 117, 108,
      101, 46, 98, 115, 108]
      [67, 58, 92, 112, 92]
    = [1052]"
    using module_for_path[of "[[115, 114, 99], [1054, 1073, 1097, 1080, 1077, 1052, 1086, 1076, 1091, 1083,
          1080, 88], [1052], [69, 120, 116], [77, 111, 100, 117, 108, 101, 46, 98, 115,
          108]]"
        "[92, 47, 92, 47]"
        "[67, 58, 92, 112, 92, 115, 114, 99, 92, 1054, 1073, 1097, 1080, 1077, 1052, 1086,
      1076, 1091, 1083, 1080, 88, 47, 1052, 92, 69, 120, 116, 47, 77, 111, 100, 117, 108,
      101, 46, 98, 115, 108]"
        "[67, 58, 92, 112, 92]" 0]
    by (simp add: module_of_segments_def startswith_def s_CommonModules_def s_ObshchieModuli_def
        type_mapping_def)
  have c5: "get_module_for_path
      [47, 114, 47, 82, 101, 112, 111, 114, 116, 115, 47, 1054, 47, 69, 120, 116, 47, 77,
      111, 100, 117, 108, 101, 46, 98, 115, 108]
      [47, 114]
    = [82, 101, 112, 111, 114, 116, 115, 46, 1054]"
    using module_for_path[of "[[82, 101, 112, 111, 114, 116, 115], [1054], [69, 120, 116], [77, 111, 100,
          117, 108, 101, 46, 98, 115, 108]]"
        "[47, 47, 47]"
        "[47, 114, 47, 82, 101, 112, 111, 114, 116, 115, 47, 1054, 47, 69, 120, 116, 47, 77,
      111, 100, 117, 108, 101, 46, 98, 115, 108]"
        "[47, 114]" 47]
    by (simp add: module_of_segments_def startswith_def s_CommonModules_def s_ObshchieModuli_def
        type_mapping_def)
  have c6: "get_module_for_path
      [47, 114, 47, 73, 110, 102, 111, 114, 109, 97, 116, 105, 111, 110, 82, 101, 103,
      105, 115, 116, 101, 114, 115, 47, 88, 47, 69, 120, 116, 47, 77, 111, 100, 117, 108,
      101, 46, 98, 115, 108]
      [47, 114]
    = [1056, 1077, 1075, 1080, 1089, 1090, 1088, 1099, 1057, 1074, 1077, 1076, 1077,
      1085, 1080, 1081, 46, 88]"
    using module_for_path[of "[[73, 110, 102, 111, 114, 109, 97, 116, 105, 111, 110, 82, 101, 103, 105, 115,
          116, 101, 114, 115], [88], [69, 120, 116], [77, 111, 100, 117, 108, 101, 46,
          98, 115, 108]]"
        "[47, 47, 47]"
        "[47, 114, 47, 73, 110, 102, 111, 114, 109, 97, 116, 105, 111, 110, 82, 101, 103,
      105, 115, 116, 101, 114, 115, 47, 88, 47, 69, 120, 116, 47, 77, 111, 100, 117, 108,
      101, 46, 98, 115, 108]"
        "[47, 114]" 47]
    by (simp add: module_of_segments_def startswith_def s_CommonModules_def s_ObshchieModuli_def
        type_mapping_def)
  have c7: "get_module_for_path
      [47, 114, 47, 65, 99, 99, 117, 109, 117, 108, 97, 116, 105, 111, 110, 82, 101, 103,
      105, 115, 116, 101, 114, 115, 47, 88, 47, 69, 120, 116, 47, 77, 111, 100, 117, 108,
      101, 46, 98, 115, 108]
      [47, 114]
    = [1056, 1077, 1075, 1080, 1089, 1090, 1088, 1099, 1053, 1072, 1082, 1086, 1087,
      1083, 1077, 1085, 1080, 1103, 46, 88]"
    using module_for_path[of "[[65, 99, 99, 117, 109, 117, 108, 97, 116, 105, 111, 110, 82, 101, 103, 105,
          115, 116, 101, 114, 115], [88], [69, 120, 116], [77, 111, 100, 117, 108, 101,
          46, 98, 115, 108]]"
        "[47, 47, 47]"
        "[47, 114, 47, 65, 99, 99, 117, 109, 117, 108, 97, 116, 105, 111, 110, 82, 101, 103,
      105, 115, 116, 101, 114, 115, 47, 88, 47, 69, 120, 116, 47, 77, 111, 100, 117, 108,
      101, 46, 98, 115, 108]"
        "[47, 114]" 47]
    by (simp add: module_of_segments_def startswith_def s_CommonModules_def s_ObshchieModuli_def
        type_mapping_def)
  have c8: "get_module_for_path
      [47, 114, 47, 69, 110, 117, 109, 115, 47, 88, 47, 69, 120, 116, 47, 77, 111, 100,
      117, 108, 101, 46, 98, 115, 108]
      [47, 114]
    = [1055, 1077, 1088, 1077, 1095, 1080, 1089, 1083, 1077, 1085, 1080, 1103, 46, 88]"
    using module_for_path[of "[[69, 110, 117, 109, 115], [88], [69, 120, 116], [77, 111, 100, 117, 108, 101,
          46, 98, 115, 108]]"
        "[47, 47, 47]"
        "[47, 114, 47, 69, 110, 117, 109, 115, 47, 88, 47, 69, 120, 116, 47, 77, 111, 100,
      117, 108, 101, 46, 98, 115, 108]"
        "[47, 114]" 47]
    by (simp add: module_of_segments_def startswith_def s_CommonModules_def s_ObshchieModuli_def
        type_mapping_def)
  have c9: "get_module_for_path
      [47, 114, 47, 67, 111, 110, 115, 116, 97, 110, 116, 115, 47, 88, 47, 69, 120, 116,
      47, 77, 111, 100, 117, 108, 101, 46, 98, 115, 108]
      [47, 114]
    = [1050, 1086, 1085, 1089, 1090, 1072, 1085, 1090, 1099, 46, 88]"
    using module_for_path[of "[[67, 111, 110, 115, 116, 97, 110, 116, 115], [88], [69, 120, 116], [77, 111,
          100, 117, 108, 101, 46, 98, 115, 108]]"
        "[47, 47, 47]"
        "[47, 114, 47, 67, 111, 110, 115, 116, 97, 110, 116, 115, 47, 88, 47, 69, 120, 116,
      47, 77, 111, 100, 117, 108, 101, 46, 98, 115, 108]"
        "[47, 114]" 47]
    by (simp add: module_of_segments_def startswith_def s_CommonModules_def s_ObshchieModuli_def
        type_mapping_def)
  have c10: "get_module_for_path
      [47, 114, 47, 67, 111, 109, 109, 111, 110, 67, 111, 109, 109, 97, 110, 100, 115,
      47, 88, 47, 69, 120, 116, 47, 77, 111, 100, 117, 108, 101, 46, 98, 115, 108]
      [47, 114]
    = [1054, 1073, 1097, 1080, 1077, 1050, 1086, 1084, 1072, 1085, 1076, 1099, 46, 88]"
    using module_for_path[of "[[67, 111, 109, 109, 111, 110, 67, 111, 109, 109, 97, 110, 100, 115], [88],
          [69, 120, 116], [77, 111, 100, 117, 108, 101, 46, 98, 115, 108]]"
        "[47, 47, 47]"
        "[47, 114, 47, 67, 111, 109, 109, 111, 110, 67, 111, 109, 109, 97, 110, 100, 115,
      47, 88, 47, 69, 120, 116, 47, 77, 111, 100, 117, 108, 101, 46, 98, 115, 108]"
        "[47, 114]" 47]
    by (simp add: module_of_segments_def startswith_def s_CommonModules_def s_ObshchieModuli_def
        type_mapping_def)
  have c11: "get_module_for_path
      [47, 114, 47, 87, 101, 98, 83, 101, 114, 118, 105, 99, 101, 115, 47, 88, 47, 69,
      120, 116, 47, 77, 111, 100, 117, 108, 101, 46, 98, 115, 108]
      [47, 114]
    = [1042, 1077, 1073, 1057, 1077, 1088, 1074, 1080, 1089, 1099, 46, 88]"
    using module_for_path[of "[[87, 101, 98, 83, 101, 114, 118, 105, 99, 101, 115], [88], [69, 120, 116],
          [77, 111, 100, 117, 108, 101, 46, 98, 115, 108]]"
        "[47, 47, 47]"
        "[47, 114, 47, 87, 101, 98, 83, 101, 114, 118, 105, 99, 101, 115, 47, 88, 47, 69,
      120, 116, 47, 77, 111, 100, 117, 108, 101, 46, 98, 115, 108]"
        "[47, 114]" 47]
    by (simp add: module_of_segments_def startswith_def s_CommonModules_def s_ObshchieModuli_def
        type_mapping_def)
  have c12: "get_module_for_path
      [47, 114, 47, 66, 117, 115, 105, 110, 101, 115, 115, 80, 114, 111, 99, 101, 115,
      115, 101, 115, 47, 88, 47, 69, 120, 116, 47, 77, 111, 100, 117, 108, 101, 46, 98,
      115, 108]
      [47, 114]
    = [1041, 1080, 1079, 1085, 1077, 1089, 1055, 1088, 1086, 1094, 1077, 1089, 1089,
      1099, 46, 88]"
    using module_for_path[of "[[66, 117, 115, 105, 110, 101, 115, 115, 80, 114, 111, 99, 101, 115, 115, 101,
          115], [88], [69, 120, 116], [77, 111, 100, 117, 108, 101, 46, 98, 115, 108]]"
        "[47, 47, 47]"
        "[47, 114, 47, 66, 117, 115, 105, 110, 101, 115, 115, 80, 114, 111, 99, 101, 115,
      115, 101, 115, 47, 88, 47, 69, 120, 116, 47, 77, 111, 100, 117, 108, 101, 46, 98,
      115, 108]"
        "[47, 114]" 47]
    by (simp add: module_of_segments_def startswith_def s_CommonModules_def s_ObshchieModuli_def
        type_mapping_def)
  have c13: "get_module_for_path
      [47, 114, 47, 84, 97, 115, 107, 115, 47, 88, 47, 69, 120, 116, 47, 77, 111, 100,
      117, 108, 101, 46, 98, 115, 108]
      [47, 114]
    = [1047, 1072, 1076, 1072, 1095, 1080, 46, 88]"
    using module_for_path[of "[[84, 97, 115, 107, 115], [88], [69, 120, 116], [77, 111, 100, 117, 108, 101,
          46, 98, 115, 108]]"
        "[47, 47, 47]"
        "[47, 114, 47, 84, 97, 115, 107, 115, 47, 88, 47, 69, 120, 116, 47, 77, 111, 100,
      117, 108, 101, 46, 98, 115, 108]"
        "[47, 114]" 47]
    by (simp add: module_of_segments_def startswith_def s_CommonModules_def s_ObshchieModuli_def
        type_mapping_def)
  show ?thesis by (simp only: c0 c1 c2 c3 c4 c5 c6 c7 c8 c9 c10 c11 c12 c13 simp_thms)
qed

section \<open>Properties of the parser\<close>

subsection \<open>Bounds of a method\<close>






subsection \<open>Evaluating the parser\<close>

text \<open>The definitions that the evaluation of the parser on a given text unfolds.\<close>

lemmas char_defs = lower_cp_def is_space_def is_word_def

lemmas word_defs = s_Protsedura_def s_Funktsiya_def s_KonetsProtsedury_def s_KonetsFunktsii_def
  s_Eksport_def s_eksport_def s_Znach_def s_znach_def s_Perem_def s_NaServere_def s_NaKliente_def
  s_NaServereBezKonteksta_def s_naservere_def s_nakliente_def s_naserverebezkonteksta_def

lemmas opening_defs = finditer_opening_def search_opening_def match_opening_def
  match_export_keyword_def match_keyword_name_def annotations_def match_end_def search_end_def
  lstrip_def

lemmas method_defs = parse_method_from_match_def resync_start_line_def line_of_pos_def
  extract_context_def extract_params_def extract_description_before_def
  find_char_from_def slice_def strip_def startswith_def str_lower_def
  make_param_def match_param_def match_name_default_def match_default_def

subsection \<open>A nested, indented opening\<close>

lemma nested_openings:
  "finditer_opening s_Protsedura [1055, 1088, 1086, 1094, 1077, 1076, 1091, 1088, 1072, 32, 65, 40, 41, 10, 32, 32, 1055, 1088, 1086, 1094, 1077, 1076, 1091, 1088, 1072, 32, 66, 40, 41, 10, 32, 32, 1050, 1086, 1085, 1077, 1094, 1055, 1088, 1086, 1094, 1077, 1076, 1091, 1088, 1099, 10, 1050, 1086, 1085, 1077, 1094, 1055, 1088, 1086, 1094, 1077, 1076, 1091, 1088, 1099] = [(0, [65], 12), (14, [66], 14)]
   \<and> finditer_opening s_Funktsiya [1055, 1088, 1086, 1094, 1077, 1076, 1091, 1088, 1072, 32, 65, 40, 41, 10, 32, 32, 1055, 1088, 1086, 1094, 1077, 1076, 1091, 1088, 1072, 32, 66, 40, 41, 10, 32, 32, 1050, 1086, 1085, 1077, 1094, 1055, 1088, 1086, 1094, 1077, 1076, 1091, 1088, 1099, 10, 1050, 1086, 1085, 1077, 1094, 1055, 1088, 1086, 1094, 1077, 1076, 1091, 1088, 1099] = []"
  by (simp add: opening_defs word_defs char_defs Let_def)

lemma nested_code_end:
  "find_method_end [1055, 1088, 1086, 1094, 1077, 1076, 1091, 1088, 1072, 32, 65, 40, 41, 10, 32, 32, 1055, 1088, 1086, 1094, 1077, 1076, 1091, 1088, 1072, 32, 66, 40, 41, 10, 32, 32, 1050, 1086, 1085, 1077, 1094, 1055, 1088, 1086, 1094, 1077, 1076, 1091, 1088, 1099, 10, 1050, 1086, 1085, 1077, 1094, 1055, 1088, 1086, 1094, 1077, 1076, 1091, 1088, 1099] 0 True = Some 2 \<and> find_method_end [1055, 1088, 1086, 1094, 1077, 1076, 1091, 1088, 1072, 32, 65, 40, 41, 10, 32, 32, 1055, 1088, 1086, 1094, 1077, 1076, 1091, 1088, 1072, 32, 66, 40, 41, 10, 32, 32, 1050, 1086, 1085, 1077, 1094, 1055, 1088, 1086, 1094, 1077, 1076, 1091, 1088, 1099, 10, 1050, 1086, 1085, 1077, 1094, 1055, 1088, 1086, 1094, 1077, 1076, 1091, 1088, 1099] (Suc 0) True = Some 2"
  by (simp add: find_method_end_def opening_defs word_defs char_defs Let_def)

lemma nested_spec_end:
  "spec_method_end [1055, 1088, 1086, 1094, 1077, 1076, 1091, 1088, 1072, 32, 65, 40, 41, 10, 32, 32, 1055, 1088, 1086, 1094, 1077, 1076, 1091, 1088, 1072, 32, 66, 40, 41, 10, 32, 32, 1050, 1086, 1085, 1077, 1094, 1055, 1088, 1086, 1094, 1077, 1076, 1091, 1088, 1099, 10, 1050, 1086, 1085, 1077, 1094, 1055, 1088, 1086, 1094, 1077, 1076, 1091, 1088, 1099] 0 True = Some 3"
  by (simp add: spec_method_end_def opening_defs word_defs char_defs Let_def)

lemma nested_methods:
  "parse_method_from_match [1055, 1088, 1086, 1094, 1077, 1076, 1091, 1088, 1072, 32, 65, 40, 41, 10, 32, 32, 1055, 1088, 1086, 1094, 1077, 1076, 1091, 1088, 1072, 32, 66, 40, 41, 10, 32, 32, 1050, 1086, 1085, 1077, 1094, 1055, 1088, 1086, 1094, 1077, 1076, 1091, 1088, 1099, 10, 1050, 1086, 1085, 1077, 1094, 1055, 1088, 1086, 1094, 1077, 1076, 1091, 1088, 1099] [[1055, 1088, 1086, 1094, 1077, 1076, 1091, 1088, 1072, 32, 65, 40, 41], [32, 32, 1055, 1088, 1086, 1094, 1077, 1076, 1091, 1088, 1072, 32, 66, 40, 41], [32, 32, 1050, 1086, 1085, 1077, 1094, 1055, 1088, 1086, 1094, 1077, 1076, 1091, 1088, 1099], [1050, 1086, 1085, 1077, 1094, 1055, 1088, 1086, 1094, 1077, 1076, 1091, 1088, 1099]] (0, [65], 12) True =
     Some \<lparr>m_name = [65], m_line = 0, m_endline = 2, m_isproc = True, m_is_export = False,
           m_params = [], m_description = [], m_context = [], m_calls_position = []\<rparr>
   \<and> parse_method_from_match [1055, 1088, 1086, 1094, 1077, 1076, 1091, 1088, 1072, 32, 65, 40, 41, 10, 32, 32, 1055, 1088, 1086, 1094, 1077, 1076, 1091, 1088, 1072, 32, 66, 40, 41, 10, 32, 32, 1050, 1086, 1085, 1077, 1094, 1055, 1088, 1086, 1094, 1077, 1076, 1091, 1088, 1099, 10, 1050, 1086, 1085, 1077, 1094, 1055, 1088, 1086, 1094, 1077, 1076, 1091, 1088, 1099] [[1055, 1088, 1086, 1094, 1077, 1076, 1091, 1088, 1072, 32, 65, 40, 41], [32, 32, 1055, 1088, 1086, 1094, 1077, 1076, 1091, 1088, 1072, 32, 66, 40, 41], [32, 32, 1050, 1086, 1085, 1077, 1094, 1055, 1088, 1086, 1094, 1077, 1076, 1091, 1088, 1099], [1050, 1086, 1085, 1077, 1094, 1055, 1088, 1086, 1094, 1077, 1076, 1091, 1088, 1099]] (14, [66], 14) True =
     Some \<lparr>m_name = [66], m_line = 1, m_endline = 2, m_isproc = True, m_is_export = False,
           m_params = [], m_description = [], m_context = [], m_calls_position = []\<rparr>"
  by (simp add: method_defs nested_code_end word_defs char_defs Let_def)

text \<open>
  Claim C4, at a source of four lines: the opening of a procedure \<open>A\<close>; indented by two
  spaces, the opening of a procedure \<open>B\<close>; indented likewise, a closing keyword; and a
  closing keyword at the start of the last line. The parser returns \<open>A\<close> with the end
  line 2 (and \<open>B\<close> with the lines 1 and 2): the match of the opening pattern on the
  indented line starts at column 0, not at the indentation, so the opening of \<open>B\<close> is not
  counted and the first closing keyword ends \<open>A\<close>. Counted as the specification says,
  the closing keyword that brings the depth of \<open>A\<close> to 0 is on line 3.
\<close>

theorem find_method_end_nested_indented:
  "map (\<lambda>m. (m_name m, m_line m, m_endline m)) (pr_methods (parse [1055, 1088, 1086, 1094, 1077, 1076, 1091, 1088, 1072, 32, 65, 40, 41, 10, 32, 32, 1055, 1088, 1086, 1094, 1077, 1076, 1091, 1088, 1072, 32, 66, 40, 41, 10, 32, 32, 1050, 1086, 1085, 1077, 1094, 1055, 1088, 1086, 1094, 1077, 1076, 1091, 1088, 1099, 10, 1050, 1086, 1085, 1077, 1094, 1055, 1088, 1086, 1094, 1077, 1076, 1091, 1088, 1099]))
     = [([65], 0, 2), ([66], 1, 2)]
   \<and> spec_method_end [1055, 1088, 1086, 1094, 1077, 1076, 1091, 1088, 1072, 32, 65, 40, 41, 10, 32, 32, 1055, 1088, 1086, 1094, 1077, 1076, 1091, 1088, 1072, 32, 66, 40, 41, 10, 32, 32, 1050, 1086, 1085, 1077, 1094, 1055, 1088, 1086, 1094, 1077, 1076, 1091, 1088, 1099, 10, 1050, 1086, 1085, 1077, 1094, 1055, 1088, 1086, 1094, 1077, 1076, 1091, 1088, 1099] 0 True = Some 3"
  by (simp add: parse_def parse_methods_def nested_openings nested_methods nested_spec_end
      List.map_filter_def Let_def)

subsection \<open>Export flags\<close>












section \<open>Properties of the indexer\<close>

lemma methods_add_methods_batch:
  "methods (add_methods_batch c xs) =
     methods c @ map (\<lambda>(m, f, md). \<lparr>mi_method = m, mi_filename = f, mi_module = md\<rparr>) xs"
  by (induction c xs rule: add_methods_batch.induct) (simp_all add: add_method_def Let_def)

lemma methods_add_module_vars_batch:
  "methods (add_module_vars_batch c xs) = methods c"
  by (induction c xs rule: add_module_vars_batch.induct) (simp_all add: add_module_var_def)

lemma methods_add_calls_batch:
  "methods (add_calls_batch c xs) = methods c"
  by (induction c xs rule: add_calls_batch.induct) (simp_all add: add_call_def Let_def)

lemma methods_cache_parse_result:
  "methods (cache_parse_result c pr rel module) =
     methods c @ map (\<lambda>m. \<lparr>mi_method = m, mi_filename = rel, mi_module = module\<rparr>) (pr_methods pr)"
  by (simp add: cache_parse_result_def Let_def methods_add_methods_batch
      methods_add_module_vars_batch methods_add_calls_batch comp_def)

lemma parse_file_local_appends:
  assumes "local_cache s = Some c"
    and "files (path_join root rel) = Some content"
    and "\<forall>symbols. DAList.lookup (document_symbols_cache s) rel
            \<noteq> Some (md5 (normalize_newlines content), symbols)"
    and "strip (normalize_newlines content) \<noteq> []"
  shows "\<exists>c'. local_cache (parse_file_local root files md5 s rel) = Some c'
           \<and> methods c' = methods c
                @ map (\<lambda>m. \<lparr>mi_method = m, mi_filename = rel,
                              mi_module = get_module_for_path (path_join root rel) root\<rparr>)
                    (pr_methods (parse (normalize_newlines content)))
           \<and> (\<exists>symbols. DAList.lookup (document_symbols_cache (parse_file_local root files md5 s rel)) rel
                 = Some (md5 (normalize_newlines content), symbols))"
proof -
  have nc: "\<not> (case DAList.lookup (document_symbols_cache s) rel of
                  Some (cached_hash, symbols) \<Rightarrow> cached_hash = md5 (normalize_newlines content)
                | None \<Rightarrow> False)"
    using assms(3) by (auto split: option.splits)
  show ?thesis
    using assms(1,2,4) nc
    by (simp add: parse_file_local_def Let_def convert_single_file_to_document_symbols_def
        methods_cache_parse_result)
qed

lemma invalidate_file_cache_replaces:
  assumes "local_cache s = Some c"
    and "files (path_join root rel) = Some content"
    and "strip (normalize_newlines content) \<noteq> []"
  shows "\<exists>s' c'. invalidate_file_cache root files md5 s rel = Inr s'
           \<and> local_cache s' = Some c'
           \<and> methods c' = filter (\<lambda>mi. mi_filename mi \<noteq> rel) (methods c)
                @ map (\<lambda>m. \<lparr>mi_method = m, mi_filename = rel,
                              mi_module = get_module_for_path (path_join root rel) root\<rparr>)
                    (pr_methods (parse (normalize_newlines content)))
           \<and> (\<exists>symbols. DAList.lookup (document_symbols_cache s') rel
                 = Some (md5 (normalize_newlines content), symbols))"
proof -
  from remove_file_data_char[of c rel] obtain c1 where r: "remove_file_data c rel = Inr c1"
    and c1: "c1 = (rebuild_indices (c\<lparr>methods := filter (\<lambda>mi. mi_filename mi \<noteq> rel) (methods c)\<rparr>))
             \<lparr>module_vars := DAList.delete rel (module_vars c),
              calls := calls c1,
              modules := filter (\<lambda>mo. mo_filename mo \<noteq> rel) (modules c)\<rparr>"
    by auto
  have m1: "methods c1 = filter (\<lambda>mi. mi_filename mi \<noteq> rel) (methods c)"
    by (subst c1) simp
  let ?s3 = "s\<lparr>document_symbols_cache := DAList.delete rel (document_symbols_cache s),
               raw_document_symbols_cache := DAList.delete rel (raw_document_symbols_cache s),
               local_cache := Some c1,
               file_content_cache := DAList.delete rel (file_content_cache s),
               converted_files := removeAll rel (converted_files s)\<rparr>"
  have i: "invalidate_file_cache root files md5 s rel = Inr (parse_file_local root files md5 ?s3 rel)"
    using assms(1) r by (simp add: invalidate_file_cache_def Let_def)
  have a: "local_cache ?s3 = Some c1" by simp
  have b: "\<forall>symbols. DAList.lookup (document_symbols_cache ?s3) rel
            \<noteq> Some (md5 (normalize_newlines content), symbols)"
    by simp
  from parse_file_local_appends[of ?s3 c1 files root rel content md5, OF a assms(2) b assms(3)] i m1
  show ?thesis
    by auto
qed

lemma old_source_parts:
  "finditer_opening s_Protsedura [1055, 1088, 1086, 1094, 1077, 1076, 1091, 1088, 1072, 32, 65, 40, 41, 10, 1050, 1086, 1085, 1077, 1094, 1055, 1088, 1086, 1094, 1077, 1076, 1091, 1088, 1099] = [(0, [65], 12)]
   \<and> finditer_opening s_Funktsiya [1055, 1088, 1086, 1094, 1077, 1076, 1091, 1088, 1072, 32, 65, 40, 41, 10, 1050, 1086, 1085, 1077, 1094, 1055, 1088, 1086, 1094, 1077, 1076, 1091, 1088, 1099] = []
   \<and> find_method_end [1055, 1088, 1086, 1094, 1077, 1076, 1091, 1088, 1072, 32, 65, 40, 41, 10, 1050, 1086, 1085, 1077, 1094, 1055, 1088, 1086, 1094, 1077, 1076, 1091, 1088, 1099] 0 True = Some (Suc 0)"
  by (simp add: find_method_end_def opening_defs word_defs char_defs Let_def)

lemma old_source_match:
  "parse_method_from_match [1055, 1088, 1086, 1094, 1077, 1076, 1091, 1088, 1072, 32, 65, 40, 41, 10, 1050, 1086, 1085, 1077, 1094, 1055, 1088, 1086, 1094, 1077, 1076, 1091, 1088, 1099] [[1055, 1088, 1086, 1094, 1077, 1076, 1091, 1088, 1072, 32, 65, 40, 41], [1050, 1086, 1085, 1077, 1094, 1055, 1088, 1086, 1094, 1077, 1076, 1091, 1088, 1099]] (0, [65], 12) True =
     Some \<lparr>m_name = [65], m_line = 0, m_endline = Suc 0, m_isproc = True, m_is_export = False,
           m_params = [], m_description = [], m_context = [], m_calls_position = []\<rparr>"
  by (simp add: method_defs old_source_parts word_defs char_defs Let_def)

lemma old_source_names:
  "map m_name (pr_methods (parse [1055, 1088, 1086, 1094, 1077, 1076, 1091, 1088, 1072, 32, 65, 40, 41, 10, 1050, 1086, 1085, 1077, 1094, 1055, 1088, 1086, 1094, 1077, 1076, 1091, 1088, 1099])) = [[65]]"
  by (simp add: parse_def parse_methods_def old_source_parts old_source_match List.map_filter_def Let_def)

lemma new_source_parts:
  "finditer_opening s_Protsedura [1055, 1088, 1086, 1094, 1077, 1076, 1091, 1088, 1072, 32, 66, 40, 41, 10, 1050, 1086, 1085, 1077, 1094, 1055, 1088, 1086, 1094, 1077, 1076, 1091, 1088, 1099] = [(0, [66], 12)]
   \<and> finditer_opening s_Funktsiya [1055, 1088, 1086, 1094, 1077, 1076, 1091, 1088, 1072, 32, 66, 40, 41, 10, 1050, 1086, 1085, 1077, 1094, 1055, 1088, 1086, 1094, 1077, 1076, 1091, 1088, 1099] = []
   \<and> find_method_end [1055, 1088, 1086, 1094, 1077, 1076, 1091, 1088, 1072, 32, 66, 40, 41, 10, 1050, 1086, 1085, 1077, 1094, 1055, 1088, 1086, 1094, 1077, 1076, 1091, 1088, 1099] 0 True = Some (Suc 0)"
  by (simp add: find_method_end_def opening_defs word_defs char_defs Let_def)

lemma new_source_match:
  "parse_method_from_match [1055, 1088, 1086, 1094, 1077, 1076, 1091, 1088, 1072, 32, 66, 40, 41, 10, 1050, 1086, 1085, 1077, 1094, 1055, 1088, 1086, 1094, 1077, 1076, 1091, 1088, 1099] [[1055, 1088, 1086, 1094, 1077, 1076, 1091, 1088, 1072, 32, 66, 40, 41], [1050, 1086, 1085, 1077, 1094, 1055, 1088, 1086, 1094, 1077, 1076, 1091, 1088, 1099]] (0, [66], 12) True =
     Some \<lparr>m_name = [66], m_line = 0, m_endline = Suc 0, m_isproc = True, m_is_export = False,
           m_params = [], m_description = [], m_context = [], m_calls_position = []\<rparr>"
  by (simp add: method_defs new_source_parts word_defs char_defs Let_def)

lemma new_source_names:
  "map m_name (pr_methods (parse [1055, 1088, 1086, 1094, 1077, 1076, 1091, 1088, 1072, 32, 66, 40, 41, 10, 1050, 1086, 1085, 1077, 1094, 1055, 1088, 1086, 1094, 1077, 1076, 1091, 1088, 1099])) = [[66]]"
  by (simp add: parse_def parse_methods_def new_source_parts new_source_match List.map_filter_def Let_def)

text \<open>
  Claim C1, on the path of bulk indexing, which calls \<open>_parse_file_local\<close> without
  \<open>remove_file_data\<close>. Under the root \<open>/r\<close> the file \<open>m.bsl\<close> first holds a
  procedure \<open>A\<close> and is indexed by a new server; then it holds a procedure \<open>B\<close> instead
  and is indexed again (the hash of a text is the text itself here). The parse of the new
  content gives \<open>B\<close> alone, but the cache holds both the entry of \<open>A\<close> from the
  earlier parse and that of \<open>B\<close>. On the path of \<open>_invalidate_file_cache\<close> the old
  entries are removed first (lemma \<open>invalidate_file_cache_replaces\<close>).
\<close>

theorem reindex_without_removal_merges:
  "\<exists>c. local_cache
          (parse_file_local [47, 114] (\<lambda>p. if p = [47, 114, 47, 109, 46, 98, 115, 108] then Some [1055, 1088, 1086, 1094, 1077, 1076, 1091, 1088, 1072, 32, 66, 40, 41, 10, 1050, 1086, 1085, 1077, 1094, 1055, 1088, 1086, 1094, 1077, 1076, 1091, 1088, 1099] else None) (\<lambda>text. text)
             (parse_file_local [47, 114] (\<lambda>p. if p = [47, 114, 47, 109, 46, 98, 115, 108] then Some [1055, 1088, 1086, 1094, 1077, 1076, 1091, 1088, 1072, 32, 65, 40, 41, 10, 1050, 1086, 1085, 1077, 1094, 1055, 1088, 1086, 1094, 1077, 1076, 1091, 1088, 1099] else None) (\<lambda>text. text)
                Server_init [109, 46, 98, 115, 108])
             [109, 46, 98, 115, 108]) = Some c
       \<and> map (\<lambda>mi. (m_name (mi_method mi), mi_filename mi)) (methods c)
           = [([65], [109, 46, 98, 115, 108]), ([66], [109, 46, 98, 115, 108])]
       \<and> map m_name (pr_methods (parse [1055, 1088, 1086, 1094, 1077, 1076, 1091, 1088, 1072, 32, 66, 40, 41, 10, 1050, 1086, 1085, 1077, 1094, 1055, 1088, 1086, 1094, 1077, 1076, 1091, 1088, 1099])) = [[66]]"
proof -
  let ?old = "[1055, 1088, 1086, 1094, 1077, 1076, 1091, 1088, 1072, 32, 65, 40, 41, 10, 1050, 1086, 1085, 1077, 1094, 1055, 1088, 1086, 1094, 1077, 1076, 1091, 1088, 1099]"
  let ?new = "[1055, 1088, 1086, 1094, 1077, 1076, 1091, 1088, 1072, 32, 66, 40, 41, 10, 1050, 1086, 1085, 1077, 1094, 1055, 1088, 1086, 1094, 1077, 1076, 1091, 1088, 1099]"
  let ?files_old = "\<lambda>p. if p = [47, 114, 47, 109, 46, 98, 115, 108] then Some ?old else None"
  let ?files_new = "\<lambda>p. if p = [47, 114, 47, 109, 46, 98, 115, 108] then Some ?new else None"
  let ?root = "[47, 114]"
  let ?rel = "[109, 46, 98, 115, 108]"
  let ?id = "\<lambda>text::ustr. text"
  let ?s1 = "parse_file_local [47, 114] ?files_old ?id Server_init [109, 46, 98, 115, 108]"
  let ?s2 = "parse_file_local [47, 114] ?files_new ?id ?s1 [109, 46, 98, 115, 108]"
  let ?mk = "\<lambda>m. \<lparr>mi_method = m, mi_filename = [109, 46, 98, 115, 108],
                    mi_module = get_module_for_path (path_join [47, 114] [109, 46, 98, 115, 108]) [47, 114]\<rparr>"
  have p: "path_join [47, 114] [109, 46, 98, 115, 108] = [47, 114, 47, 109, 46, 98, 115, 108]" by (simp add: path_join_def)
  have no: "normalize_newlines ?old = ?old" by simp
  have nn: "normalize_newlines ?new = ?new" by simp
  have a1: "local_cache (Server_init :: ustr Server) = Some BSLCache_init"
    by (simp add: Server_init_def)
  have a2: "?files_old (path_join [47, 114] [109, 46, 98, 115, 108]) = Some ?old" by (simp add: p)
  have a3: "\<forall>symbols. DAList.lookup (document_symbols_cache (Server_init :: ustr Server)) [109, 46, 98, 115, 108]
              \<noteq> Some (?id (normalize_newlines ?old), symbols)"
    by (simp add: Server_init_def)
  have a4: "strip (normalize_newlines ?old) \<noteq> []"
    by (simp add: strip_def char_defs)
  from parse_file_local_appends[of Server_init BSLCache_init ?files_old ?root ?rel ?old ?id,
      OF a1 a2 a3 a4]
  obtain c1 sy where c1: "local_cache ?s1 = Some c1"
    and m1: "methods c1 = methods BSLCache_init @ map ?mk (pr_methods (parse (normalize_newlines ?old)))"
    and d1: "DAList.lookup (document_symbols_cache ?s1) [109, 46, 98, 115, 108] = Some (normalize_newlines ?old, sy)"
    by blast
  have b2: "?files_new (path_join [47, 114] [109, 46, 98, 115, 108]) = Some ?new" by (simp add: p)
  have b3: "\<forall>symbols. DAList.lookup (document_symbols_cache ?s1) [109, 46, 98, 115, 108]
              \<noteq> Some (?id (normalize_newlines ?new), symbols)"
    by (simp add: d1)
  have b4: "strip (normalize_newlines ?new) \<noteq> []"
    by (simp add: strip_def char_defs)
  from parse_file_local_appends[of ?s1 c1 ?files_new ?root ?rel ?new ?id, OF c1 b2 b3 b4]
  obtain c2 where c2: "local_cache ?s2 = Some c2"
    and m2: "methods c2 = methods c1 @ map ?mk (pr_methods (parse (normalize_newlines ?new)))"
    by blast
  have "map (\<lambda>mi. (m_name (mi_method mi), mi_filename mi)) (methods c2)
      = map (\<lambda>n. (n, [109, 46, 98, 115, 108])) (map m_name (pr_methods (parse ?old)))
        @ map (\<lambda>n. (n, [109, 46, 98, 115, 108])) (map m_name (pr_methods (parse ?new)))"
    by (simp only: m2 m1 no nn) (simp add: BSLCache_init_def comp_def)
  then have "map (\<lambda>mi. (m_name (mi_method mi), mi_filename mi)) (methods c2)
      = [([65], [109, 46, 98, 115, 108]), ([66], [109, 46, 98, 115, 108])]"
    by (simp only: old_source_names new_source_names) simp
  with c2 new_source_names show ?thesis
    by (intro exI[where x=c2] conjI) assumption+
qed

end
